theory Spec2Isabelle
  imports Complex_Main
begin

section \<open>JavaScript values\<close>

text \<open>
  The server (\<^verbatim>\<open>server.js\<close>) is a set of Express route handlers over three Mongoose
  collections. Its own code is embedded below function by function; the library calls it
  makes (express-validator, Mongoose, bcrypt, jsonwebtoken) appear either as small
  definitions that follow the libraries' documented behaviour, or as fields of the record
  \<open>env\<close> when the behaviour is cryptographic, time dependent or version dependent.

  A JavaScript number is \<open>NaN\<close>, an infinity or a finite value. Finite values are kept as
  exact rationals: the rounding of IEEE doubles is not part of this model.
\<close>

datatype jsnum = NaN | Fin rat | PosInf | NegInf

text \<open>
  A field of a parsed JSON body. \<open>JUndefined\<close> stands for a field that is absent.
  Numbers in bodies are integers here (a fractional number can still be sent as a string,
  which \<open>Number\<close> parses); array and object values are outside the model.
\<close>

datatype jsval = JUndefined | JNull | JBool bool | JInt int | JStr string

text \<open>Truthiness of a number: \<^verbatim>\<open>x || d\<close> takes \<open>d\<close> when \<open>x\<close> is \<open>0\<close> or \<open>NaN\<close>.\<close>

definition truthy_num :: "jsnum \<Rightarrow> bool" where
  "truthy_num x = (x \<noteq> NaN \<and> x \<noteq> Fin 0)"

text \<open>
  A query parameter is \<^verbatim>\<open>undefined\<close> or a string (repeated and bracketed parameters,
  which Express parses into arrays and objects, are outside the model). It is truthy
  when it is a non-empty string: the string \<^verbatim>\<open>"0"\<close> is truthy.
\<close>

definition truthy_str :: "string option \<Rightarrow> bool" where
  "truthy_str q = (case q of None \<Rightarrow> False | Some s \<Rightarrow> s \<noteq> [])"

definition js_neg :: "jsnum \<Rightarrow> jsnum" where
  "js_neg x = (case x of NaN \<Rightarrow> NaN | Fin a \<Rightarrow> Fin (- a) | PosInf \<Rightarrow> NegInf | NegInf \<Rightarrow> PosInf)"

definition js_sub :: "jsnum \<Rightarrow> jsnum \<Rightarrow> jsnum" where
  "js_sub x y =
     (case (x, y) of
        (NaN, _) \<Rightarrow> NaN
      | (_, NaN) \<Rightarrow> NaN
      | (Fin a, Fin b) \<Rightarrow> Fin (a - b)
      | (Fin a, PosInf) \<Rightarrow> NegInf
      | (Fin a, NegInf) \<Rightarrow> PosInf
      | (PosInf, PosInf) \<Rightarrow> NaN
      | (PosInf, _) \<Rightarrow> PosInf
      | (NegInf, NegInf) \<Rightarrow> NaN
      | (NegInf, _) \<Rightarrow> NegInf)"

definition js_sgn :: "jsnum \<Rightarrow> int" where
  "js_sgn x = (case x of NaN \<Rightarrow> 0 | Fin a \<Rightarrow> (if a < 0 then - 1 else if a = 0 then 0 else 1)
                | PosInf \<Rightarrow> 1 | NegInf \<Rightarrow> - 1)"

definition js_mul :: "jsnum \<Rightarrow> jsnum \<Rightarrow> jsnum" where
  "js_mul x y =
     (case (x, y) of
        (NaN, _) \<Rightarrow> NaN
      | (_, NaN) \<Rightarrow> NaN
      | (Fin a, Fin b) \<Rightarrow> Fin (a * b)
      | _ \<Rightarrow> (let s = js_sgn x * js_sgn y
              in if s = 0 then NaN else if 0 < s then PosInf else NegInf))"

text \<open>\<open>x \<le> y\<close> on numbers; every comparison with \<open>NaN\<close> is false.\<close>

definition js_le :: "jsnum \<Rightarrow> jsnum \<Rightarrow> bool" where
  "js_le x y =
     (case (x, y) of
        (NaN, _) \<Rightarrow> False
      | (_, NaN) \<Rightarrow> False
      | (NegInf, _) \<Rightarrow> True
      | (_, PosInf) \<Rightarrow> True
      | (Fin a, Fin b) \<Rightarrow> a \<le> b
      | _ \<Rightarrow> False)"

definition Math_min :: "jsnum \<Rightarrow> jsnum \<Rightarrow> jsnum" where
  "Math_min x y = (if x = NaN \<or> y = NaN then NaN else if js_le x y then x else y)"

subsection \<open>\<^verbatim>\<open>Number(string)\<close>\<close>

text \<open>
  The grammar \<^emph>\<open>StringNumericLiteral\<close> of ECMAScript: surrounding white space is dropped,
  the empty string is \<open>0\<close>, then a signed decimal literal (with fraction and exponent),
  \<^verbatim>\<open>Infinity\<close>, or an unsigned hexadecimal, octal or binary literal; anything else is
  \<open>NaN\<close>. White space is the ASCII part of JavaScript's white space.
\<close>

definition is_ws :: "char \<Rightarrow> bool" where
  "is_ws c = (c \<in> set [CHR 0x09, CHR 0x0A, CHR 0x0B, CHR 0x0C, CHR 0x0D, CHR 0x20])"

definition trim_ws :: "string \<Rightarrow> string" where
  "trim_ws s = rev (dropWhile is_ws (rev (dropWhile is_ws s)))"

definition is_digit :: "char \<Rightarrow> bool" where
  "is_digit c = (c \<in> set ''0123456789'')"

definition digit_val :: "char \<Rightarrow> nat" where
  "digit_val c =
     (if c \<in> set ''0123456789'' then of_char c - 48
      else if c \<in> set ''abcdef'' then of_char c - 87
      else if c \<in> set ''ABCDEF'' then of_char c - 55
      else 0)"

definition is_digit_in :: "nat \<Rightarrow> char \<Rightarrow> bool" where
  "is_digit_in b c = (c \<in> set ''0123456789abcdefABCDEF'' \<and> digit_val c < b)"

definition digits_value :: "nat \<Rightarrow> string \<Rightarrow> nat" where
  "digits_value b ds = foldl (\<lambda>a c. b * a + digit_val c) 0 ds"

definition pow10 :: "int \<Rightarrow> rat" where
  "pow10 e = (if 0 \<le> e then 10 ^ nat e else 1 / 10 ^ nat (- e))"

definition exponent_part :: "string \<Rightarrow> int option" where
  "exponent_part s =
     (case s of
        [] \<Rightarrow> Some 0
      | c # t \<Rightarrow>
          if c = CHR ''e'' \<or> c = CHR ''E'' then
            (let neg = (case t of d # _ \<Rightarrow> d = CHR ''-'' | [] \<Rightarrow> False);
                 ds = (case t of d # u \<Rightarrow> if d = CHR ''-'' \<or> d = CHR ''+'' then u else t
                       | [] \<Rightarrow> [])
             in if ds \<noteq> [] \<and> list_all is_digit ds
                then Some ((if neg then - 1 else 1) * int (digits_value 10 ds))
                else None)
          else None)"

definition unsigned_decimal :: "string \<Rightarrow> jsnum option" where
  "unsigned_decimal s =
     (if s = ''Infinity'' then Some PosInf
      else
        let ip = takeWhile is_digit s;
            r = dropWhile is_digit s;
            dot = (case r of c # _ \<Rightarrow> c = CHR ''.'' | [] \<Rightarrow> False);
            fp = (if dot then takeWhile is_digit (tl r) else []);
            r' = (if dot then dropWhile is_digit (tl r) else r)
        in if ip = [] \<and> fp = [] then None
           else (case exponent_part r' of
                   None \<Rightarrow> None
                 | Some e \<Rightarrow>
                     Some (Fin (of_nat (digits_value 10 (ip @ fp)) * pow10 (e - int (length fp))))))"

definition signed_decimal :: "string \<Rightarrow> jsnum option" where
  "signed_decimal s =
     (case s of
        [] \<Rightarrow> None
      | c # t \<Rightarrow>
          if c = CHR ''-'' then map_option js_neg (unsigned_decimal t)
          else if c = CHR ''+'' then unsigned_decimal t
          else unsigned_decimal s)"

definition non_decimal :: "string \<Rightarrow> jsnum option" where
  "non_decimal s =
     (case s of
        z # x # ds \<Rightarrow>
          (let b = (if x \<in> set ''xX'' then 16 else if x \<in> set ''oO'' then 8
                    else if x \<in> set ''bB'' then 2 else (0::nat))
           in if z = CHR ''0'' \<and> b \<noteq> 0 \<and> ds \<noteq> [] \<and> list_all (is_digit_in b) ds
              then Some (Fin (of_nat (digits_value b ds)))
              else None)
      | _ \<Rightarrow> None)"

definition Number_str :: "string \<Rightarrow> jsnum" where
  "Number_str s =
     (let t = trim_ws s
      in if t = [] then Fin 0
         else (case non_decimal t of
                 Some x \<Rightarrow> x
               | None \<Rightarrow> (case signed_decimal t of Some x \<Rightarrow> x | None \<Rightarrow> NaN)))"

text \<open>\<^verbatim>\<open>Number(v)\<close> for a body field.\<close>

definition Number_val :: "jsval \<Rightarrow> jsnum" where
  "Number_val v =
     (case v of
        JUndefined \<Rightarrow> NaN
      | JNull \<Rightarrow> Fin 0
      | JBool b \<Rightarrow> Fin (if b then 1 else 0)
      | JInt i \<Rightarrow> Fin (of_int i)
      | JStr s \<Rightarrow> Number_str s)"

subsection \<open>\<^verbatim>\<open>String(number)\<close>\<close>

definition digit_char :: "nat \<Rightarrow> char" where
  "digit_char n = char_of (48 + n)"

fun digits_of :: "nat \<Rightarrow> string" where
  "digits_of n = (if n < 10 then [digit_char n] else digits_of (n div 10) @ [digit_char (n mod 10)])"

declare digits_of.simps [simp del]

text \<open>
  Integers below \<open>10\<^sup>2\<^sup>1\<close> print in plain decimal notation; from there on JavaScript
  switches to exponent notation (mantissa, \<^verbatim>\<open>e+\<close>, exponent).
\<close>

definition String_int :: "int \<Rightarrow> string" where
  "String_int i =
     (let sign = (if i < 0 then ''-'' else []);
          ds = digits_of (nat \<bar>i\<bar>)
      in if \<bar>i\<bar> < 10 ^ 21 then sign @ ds
         else
           (let m = rev (dropWhile (\<lambda>c. c = CHR ''0'') (rev ds))
            in sign @ [hd m] @ (if tl m = [] then [] else CHR ''.'' # tl m)
                 @ ''e+'' @ digits_of (length ds - 1)))"


section \<open>Documents, requests and responses\<close>

text \<open>An \<^verbatim>\<open>ObjectId\<close> in its canonical form.\<close>

type_synonym oid = string

text \<open>The three Mongoose schemas, each with the \<^verbatim>\<open>timestamps\<close> option.\<close>

record user =
  u_id :: oid
  u_name :: string
  u_email :: string
  u_passwordHash :: string
  u_role :: string
  u_createdAt :: int
  u_updatedAt :: int

record candidate =
  c_id :: oid
  c_name :: string
  c_role :: string
  c_experience :: jsnum
  c_rating :: jsnum
  c_notes :: "string option"
  c_createdBy :: oid
  c_createdAt :: int
  c_updatedAt :: int

text \<open>The nested path \<^verbatim>\<open>feedback: { rating: Number, notes: String }\<close>; \<open>None\<close> is a field that is not set.\<close>

record feedback =
  fb_rating :: "jsnum option"
  fb_notes :: "string option"

record interview =
  i_id :: oid
  i_candidate :: oid
  i_date :: int
  i_interviewer :: string
  i_mode :: string
  i_feedback :: feedback
  i_createdBy :: oid
  i_createdAt :: int
  i_updatedAt :: int

record state =
  users :: "user list"
  candidates :: "candidate list"
  interviews :: "interview list"

text \<open>The claims of a token: \<^verbatim>\<open>{ userId, role }\<close>.\<close>

record payload =
  userId :: oid
  role :: string

text \<open>
  What the server's own code does not decide: the validators \<^verbatim>\<open>isEmail\<close> and
  \<^verbatim>\<open>isMongoId\<close>, the cast of a string to an \<^verbatim>\<open>ObjectId\<close> (\<open>None\<close>: the cast fails), the
  case-insensitive regular expression match of MongoDB (\<open>None\<close>: the pattern is not a
  regular expression), \<^verbatim>\<open>new Date(v)\<close> (\<open>None\<close>: an invalid date), bcrypt with the salt
  of this request, jsonwebtoken with the server's secret at the time of this request
  (\<open>jwt_verify\<close> is \<open>None\<close> where \<^verbatim>\<open>jwt.verify\<close> throws: a bad signature, an expired
  token), whether Mongoose applies schema setters to query conditions (it does from
  version 5 on), the clock, and the identifier the next new document gets.
\<close>

record env =
  isEmail :: "string \<Rightarrow> bool"
  isMongoId :: "string \<Rightarrow> bool"
  castObjectId :: "string \<Rightarrow> oid option"
  regex_i :: "string \<Rightarrow> (string \<Rightarrow> bool) option"
  newDate :: "jsval \<Rightarrow> int option"
  bcrypt_hash :: "string \<Rightarrow> string"
  bcrypt_compare :: "string \<Rightarrow> string \<Rightarrow> bool"
  jwt_sign :: "payload \<Rightarrow> string"
  jwt_verify :: "string \<Rightarrow> payload option"
  runSettersOnQuery :: bool
  now :: int
  newObjectId :: oid

record request =
  authorization :: "string option"
  body :: "string \<Rightarrow> jsval"
  query :: "string \<Rightarrow> string option"
  params :: "string \<Rightarrow> string"

text \<open>
  Errors that reach \<^verbatim>\<open>next(err)\<close> through \<^verbatim>\<open>asyncHandler\<close>: a Mongoose document
  validation error (with the failing paths), a Mongoose cast error in a query (with the
  path), a MongoDB server error (code and \<^verbatim>\<open>keyValue\<close>), and a plain \<^verbatim>\<open>Error\<close>.
\<close>

datatype js_error =
    ValidationError "string list"
  | CastError string
  | MongoServerError nat "(string \<times> string) list"
  | Error string

definition err_name :: "js_error \<Rightarrow> string" where
  "err_name e =
     (case e of
        ValidationError _ \<Rightarrow> ''ValidationError''
      | CastError _ \<Rightarrow> ''CastError''
      | MongoServerError _ _ \<Rightarrow> ''MongoServerError''
      | Error _ \<Rightarrow> ''Error'')"

definition err_code :: "js_error \<Rightarrow> nat option" where
  "err_code e = (case e of MongoServerError c _ \<Rightarrow> Some c | _ \<Rightarrow> None)"

definition err_keyValue :: "js_error \<Rightarrow> (string \<times> string) list" where
  "err_keyValue e = (case e of MongoServerError _ kv \<Rightarrow> kv | _ \<Rightarrow> [])"

text \<open>None of these errors has a \<^verbatim>\<open>status\<close> or \<^verbatim>\<open>statusCode\<close> property.\<close>

definition err_status :: "js_error \<Rightarrow> nat option" where
  "err_status e = None"

text \<open>
  The JSON bodies the server sends: \<^verbatim>\<open>{error}\<close>, \<^verbatim>\<open>{error: 'Duplicate key', details}\<close>,
  \<^verbatim>\<open>{error: err.message || 'Server error'}\<close>, \<^verbatim>\<open>{errors}\<close> with one (field, message)
  pair per failed validator, \<^verbatim>\<open>{token}\<close>, a document, \<^verbatim>\<open>{data, total}\<close>; and the page of
  Express's default error handler.
\<close>

datatype resbody =
    ErrorMsg string
  | DuplicateKey "(string \<times> string) list"
  | ErrorOf js_error
  | Errors "(string \<times> string) list"
  | TokenBody string
  | CandidateBody candidate
  | InterviewBody interview
  | CandidatePage "candidate list" nat
  | InterviewPage "(interview \<times> candidate option) list" nat
  | ErrorPage

record response =
  status :: nat
  json :: resbody

text \<open>
  What a handler does with a request: it sends a response, or an error reaches
  \<^verbatim>\<open>next(err)\<close>, or (\<open>Outside\<close>) it hands the database a \<^verbatim>\<open>skip\<close> or \<^verbatim>\<open>limit\<close> that is not
  a natural number, where the behaviour of driver and server is not modelled.
\<close>

datatype outcome = Sent response | Thrown js_error | Outside

section \<open>Error handling\<close>

text \<open>The error-handling middleware of \<^verbatim>\<open>server.js\<close>.\<close>

definition errorHandler :: "js_error \<Rightarrow> response" where
  "errorHandler err =
     (if err_name err = ''MongoServerError'' \<and> err_code err = Some 11000
      then \<lparr>status = 400, json = DuplicateKey (err_keyValue err)\<rparr>
      else \<lparr>status = (case err_status err of None \<Rightarrow> 500 | Some s \<Rightarrow> if s = 0 then 500 else s),
            json = ErrorOf err\<rparr>)"

text \<open>
  Express's default handler: the status is the error's \<^verbatim>\<open>status\<close> when that is a client
  or server error code, and 500 otherwise.
\<close>

definition finalhandler :: "js_error \<Rightarrow> response" where
  "finalhandler err =
     \<lparr>status = (case err_status err of None \<Rightarrow> 500
                | Some s \<Rightarrow> if 400 \<le> s \<and> s < 600 then s else 500),
      json = ErrorPage\<rparr>"

text \<open>
  \<^verbatim>\<open>server.js\<close> registers its error-handling middleware before the routes. Express
  hands an error to the error handlers that come after the layer that raised it, so an
  error of a route reaches the default handler.
\<close>

definition respond :: "outcome \<Rightarrow> response option" where
  "respond out = (case out of Sent res \<Rightarrow> Some res | Thrown err \<Rightarrow> Some (finalhandler err)
                  | Outside \<Rightarrow> None)"

section \<open>Auth middleware\<close>

text \<open>\<^verbatim>\<open>s.replace(pat, rep)\<close> with a string pattern: the first occurrence only.\<close>

fun replace_first :: "string \<Rightarrow> string \<Rightarrow> string \<Rightarrow> string" where
  "replace_first pat rep [] = (if pat = [] then rep else [])"
| "replace_first pat rep (c # cs) =
     (if take (length pat) (c # cs) = pat then rep @ drop (length pat) (c # cs)
      else c # replace_first pat rep cs)"

text \<open>\<open>Inl\<close> is the response \<^verbatim>\<open>auth\<close> sends itself; \<open>Inr\<close> is \<^verbatim>\<open>req.user\<close> when it calls \<^verbatim>\<open>next()\<close>.\<close>

definition auth :: "env \<Rightarrow> string \<Rightarrow> request \<Rightarrow> response + payload" where
  "auth E requiredRole req =
     (let header = authorization req
      in if \<not> truthy_str header
         then Inl \<lparr>status = 401, json = ErrorMsg ''No token provided''\<rparr>
         else
           (let token = replace_first ''Bearer '' [] (case header of Some h \<Rightarrow> h | None \<Rightarrow> [])
            in case jwt_verify E token of
                 None \<Rightarrow> Inl \<lparr>status = 401, json = ErrorMsg ''Invalid token''\<rparr>
               | Some payload \<Rightarrow>
                   if requiredRole \<noteq> [] \<and> role payload \<noteq> requiredRole
                   then Inl \<lparr>status = 403, json = ErrorMsg ''Forbidden''\<rparr>
                   else Inr payload))"

text \<open>A route declared with \<^verbatim>\<open>auth('hr')\<close> in front of its handler.\<close>

definition protected :: "env \<Rightarrow> state \<Rightarrow> request \<Rightarrow> (payload \<Rightarrow> outcome \<times> state) \<Rightarrow> outcome \<times> state" where
  "protected E st req handler =
     (case auth E ''hr'' req of Inl res \<Rightarrow> (Sent res, st) | Inr user \<Rightarrow> handler user)"

section \<open>Validation\<close>

text \<open>express-validator turns a field into a string before it applies a validator.\<close>

definition toString_val :: "jsval \<Rightarrow> string" where
  "toString_val v =
     (case v of
        JUndefined \<Rightarrow> []
      | JNull \<Rightarrow> []
      | JBool b \<Rightarrow> (if b then ''true'' else ''false'')
      | JInt i \<Rightarrow> String_int i
      | JStr s \<Rightarrow> s)"

definition notEmpty :: "string \<Rightarrow> bool" where
  "notEmpty s = (s \<noteq> [])"

text \<open>The regular expression \<^verbatim>\<open>^[+-]?([0-9]*[.])?[0-9]+$\<close>.\<close>

definition isNumeric :: "string \<Rightarrow> bool" where
  "isNumeric s =
     (let t = (case s of c # cs \<Rightarrow> if c = CHR ''+'' \<or> c = CHR ''-'' then cs else s | [] \<Rightarrow> s);
          r = dropWhile is_digit t
      in case r of
           [] \<Rightarrow> t \<noteq> []
         | c # f \<Rightarrow> c = CHR ''.'' \<and> f \<noteq> [] \<and> list_all is_digit f)"

definition isLength_min :: "nat \<Rightarrow> string \<Rightarrow> bool" where
  "isLength_min n s = (n \<le> length s)"

definition isIn :: "string list \<Rightarrow> string \<Rightarrow> bool" where
  "isIn xs s = (s \<in> set xs)"

definition isString :: "jsval \<Rightarrow> bool" where
  "isString v = (case v of JStr _ \<Rightarrow> True | _ \<Rightarrow> False)"

text \<open>One validation chain: the error it records, if any.\<close>

definition chain :: "string \<Rightarrow> string \<Rightarrow> bool \<Rightarrow> (string \<times> string) list" where
  "chain field msg ok = (if ok then [] else [(field, msg)])"

text \<open>\<^verbatim>\<open>checkValidation\<close>: \<open>Some\<close> is the 400 response it sends when it returns \<^verbatim>\<open>false\<close>.\<close>

definition checkValidation :: "(string \<times> string) list \<Rightarrow> response option" where
  "checkValidation errors =
     (if errors \<noteq> [] then Some \<lparr>status = 400, json = Errors errors\<rparr> else None)"


section \<open>Mongoose models\<close>

text \<open>
  The setter \<^verbatim>\<open>lowercase: true\<close> (\<^verbatim>\<open>toLowerCase\<close>, here on the ASCII letters; a
  character is a byte in this model).
\<close>

definition toLowerCase :: "string \<Rightarrow> string" where
  "toLowerCase s =
     map (\<lambda>c. if c \<in> set ''ABCDEFGHIJKLMNOPQRSTUVWXYZ'' then char_of (of_char c + (32::nat)) else c) s"

text \<open>Mongoose's cast to \<^verbatim>\<open>String\<close>: \<open>None\<close> is a value that stays \<^verbatim>\<open>null\<close> or \<^verbatim>\<open>undefined\<close>.\<close>

definition castString :: "jsval \<Rightarrow> string option" where
  "castString v =
     (case v of
        JUndefined \<Rightarrow> None
      | JNull \<Rightarrow> None
      | JBool b \<Rightarrow> Some (if b then ''true'' else ''false'')
      | JInt i \<Rightarrow> Some (String_int i)
      | JStr s \<Rightarrow> Some s)"

text \<open>
  A required string path: a missing value and the empty string both fail \<^verbatim>\<open>required\<close>,
  so a missing value is kept as the empty string.
\<close>

definition castRequiredString :: "jsval \<Rightarrow> string" where
  "castRequiredString v = (case castString v of None \<Rightarrow> [] | Some s \<Rightarrow> s)"

subsection \<open>\<^verbatim>\<open>User\<close>\<close>

text \<open>
  \<^verbatim>\<open>User.findOne({ email })\<close>. The condition is cast to a string; with setters applied to
  queries it is also put in lower case. A \<^verbatim>\<open>null\<close> condition matches no user, since
  every user has an email.
\<close>

definition User_findOne :: "env \<Rightarrow> state \<Rightarrow> jsval \<Rightarrow> user option" where
  "User_findOne E st email =
     (case castString email of
        None \<Rightarrow> None
      | Some s \<Rightarrow>
          find (\<lambda>u. u_email u = (if runSettersOnQuery E then toLowerCase s else s)) (users st))"

text \<open>\<^verbatim>\<open>new User({ name, email, passwordHash })\<close>, with the default role and the timestamps.\<close>

definition new_User :: "env \<Rightarrow> jsval \<Rightarrow> jsval \<Rightarrow> string \<Rightarrow> user" where
  "new_User E name email passwordHash =
     \<lparr>u_id = newObjectId E,
      u_name = castRequiredString name,
      u_email = toLowerCase (castRequiredString email),
      u_passwordHash = passwordHash,
      u_role = ''hr'',
      u_createdAt = now E,
      u_updatedAt = now E\<rparr>"

definition User_validate :: "user \<Rightarrow> string list" where
  "User_validate u =
     (if u_name u = [] then [''name''] else [])
     @ (if u_email u = [] then [''email''] else [])
     @ (if u_passwordHash u = [] then [''passwordHash''] else [])
     @ (if u_role u \<in> set [''hr''] then [] else [''role''])"

text \<open>
  \<^verbatim>\<open>user.save()\<close> of a new document: schema validation, then the insert, which the unique
  index on \<^verbatim>\<open>email\<close> refuses with error 11000 when the email is already stored.
\<close>

definition User_save :: "state \<Rightarrow> user \<Rightarrow> js_error + state" where
  "User_save st u =
     (if User_validate u \<noteq> [] then Inl (ValidationError (User_validate u))
      else if list_ex (\<lambda>v. u_email v = u_email u) (users st)
      then Inl (MongoServerError 11000 [(''email'', u_email u)])
      else Inr (st\<lparr>users := users st @ [u]\<rparr>))"

subsection \<open>\<^verbatim>\<open>Candidate\<close>\<close>

definition Candidate_validate :: "candidate \<Rightarrow> string list" where
  "Candidate_validate c =
     (if c_name c = [] then [''name''] else [])
     @ (if c_role c = [] then [''role''] else [])
     @ (if c_experience c = NaN \<or> \<not> js_le (Fin 0) (c_experience c) then [''experience''] else [])
     @ (if c_rating c = NaN then [''rating''] else [])"

text \<open>\<^verbatim>\<open>candidate.save()\<close> of a new document.\<close>

definition Candidate_save :: "state \<Rightarrow> candidate \<Rightarrow> js_error + state" where
  "Candidate_save st c =
     (if Candidate_validate c \<noteq> [] then Inl (ValidationError (Candidate_validate c))
      else Inr (st\<lparr>candidates := candidates st @ [c]\<rparr>))"

text \<open>
  \<^verbatim>\<open>Candidate.findById(id)\<close>: the identifier is cast to an \<^verbatim>\<open>ObjectId\<close> (identifiers
  arrive as strings), and a failed cast is a \<^verbatim>\<open>CastError\<close>.
\<close>

definition cast_id :: "env \<Rightarrow> jsval \<Rightarrow> oid option" where
  "cast_id E v = (case v of JStr s \<Rightarrow> castObjectId E s | _ \<Rightarrow> None)"

definition Candidate_findById :: "env \<Rightarrow> state \<Rightarrow> jsval \<Rightarrow> js_error + candidate option" where
  "Candidate_findById E st v =
     (case cast_id E v of
        None \<Rightarrow> Inl (CastError ''_id'')
      | Some i \<Rightarrow> Inr (find (\<lambda>c. c_id c = i) (candidates st)))"

text \<open>
  The filter object of the candidate list: \<^verbatim>\<open>name: { $regex, $options: 'i' }\<close>,
  \<^verbatim>\<open>role\<close>, \<^verbatim>\<open>experience: { $gte }\<close>; \<open>None\<close> is a key that is not set.
\<close>

record cfilter =
  f_name :: "string option"
  f_role :: "string option"
  f_experience :: "jsnum option"

text \<open>
  The documents a filter selects. Mongoose refuses \<open>NaN\<close> for a \<^verbatim>\<open>Number\<close> path with a
  \<^verbatim>\<open>CastError\<close>; MongoDB refuses a pattern that is not a regular expression (error 51091).
\<close>

definition Candidate_matching :: "env \<Rightarrow> state \<Rightarrow> cfilter \<Rightarrow> js_error + candidate list" where
  "Candidate_matching E st f =
     (if f_experience f = Some NaN then Inl (CastError ''experience'')
      else
        (case (case f_name f of None \<Rightarrow> Some (\<lambda>_. True) | Some q \<Rightarrow> regex_i E q) of
           None \<Rightarrow> Inl (MongoServerError 51091 [])
         | Some name_ok \<Rightarrow>
             Inr (filter (\<lambda>c. name_ok (c_name c)
                            \<and> (case f_role f of None \<Rightarrow> True | Some r \<Rightarrow> c_role c = r)
                            \<and> (case f_experience f of None \<Rightarrow> True
                                | Some n \<Rightarrow> js_le n (c_experience c)))
                    (candidates st))))"

text \<open>
  \<^verbatim>\<open>Candidate.find(filter).sort({ createdAt: -1 })\<close>; documents created at the same
  instant stay in insertion order.
\<close>

definition Candidate_find_sorted :: "env \<Rightarrow> state \<Rightarrow> cfilter \<Rightarrow> js_error + candidate list" where
  "Candidate_find_sorted E st f =
     (case Candidate_matching E st f of
        Inl err \<Rightarrow> Inl err
      | Inr cs \<Rightarrow> Inr (sort_key (\<lambda>c. - c_createdAt c) cs))"

definition Candidate_countDocuments :: "env \<Rightarrow> state \<Rightarrow> cfilter \<Rightarrow> js_error + nat" where
  "Candidate_countDocuments E st f =
     (case Candidate_matching E st f of Inl err \<Rightarrow> Inl err | Inr cs \<Rightarrow> Inr (length cs))"

text \<open>
  \<^verbatim>\<open>.skip(skip).limit(limit)\<close> on a query, for a \<^verbatim>\<open>skip\<close> and a \<^verbatim>\<open>limit\<close> that are natural
  numbers (a limit of \<open>0\<close> is no limit in MongoDB); \<open>None\<close> for any other value.
\<close>

definition as_nat :: "jsnum \<Rightarrow> nat option" where
  "as_nat x =
     (case x of
        Fin r \<Rightarrow> (if 0 \<le> r \<and> r = of_int \<lfloor>r\<rfloor> then Some (nat \<lfloor>r\<rfloor>) else None)
      | _ \<Rightarrow> None)"

definition skip_limit :: "jsnum \<Rightarrow> jsnum \<Rightarrow> 'a list \<Rightarrow> 'a list option" where
  "skip_limit skip limit xs =
     (case as_nat skip of
        None \<Rightarrow> None
      | Some s \<Rightarrow>
          (case as_nat limit of
             None \<Rightarrow> None
           | Some l \<Rightarrow> Some (if l = 0 then drop s xs else take l (drop s xs))))"

subsection \<open>\<^verbatim>\<open>Interview\<close>\<close>

text \<open>
  Validation of a new interview; \<open>date_ok\<close> says whether \<^verbatim>\<open>new Date(date)\<close> is a valid
  date (an invalid one cannot be cast).
\<close>

definition Interview_validate :: "interview \<Rightarrow> bool \<Rightarrow> string list" where
  "Interview_validate iv date_ok =
     (if date_ok then [] else [''date''])
     @ (if i_interviewer iv = [] then [''interviewer''] else [])
     @ (if i_mode iv \<in> set [''onsite'', ''remote''] then [] else [''mode''])"

definition Interview_findById :: "env \<Rightarrow> state \<Rightarrow> string \<Rightarrow> js_error + interview option" where
  "Interview_findById E st s =
     (case castObjectId E s of
        None \<Rightarrow> Inl (CastError ''_id'')
      | Some i \<Rightarrow> Inr (find (\<lambda>iv. i_id iv = i) (interviews st)))"

text \<open>Saving a document that was loaded with \<^verbatim>\<open>findById\<close> writes it back in its place.\<close>

fun Interview_update :: "interview \<Rightarrow> interview list \<Rightarrow> interview list" where
  "Interview_update iv [] = []"
| "Interview_update iv (d # ds) =
     (if i_id d = i_id iv then iv # ds else d # Interview_update iv ds)"

text \<open>
  \<^verbatim>\<open>Interview.find(filter)\<close> with the one optional key \<^verbatim>\<open>candidate\<close>, which is cast to an
  \<^verbatim>\<open>ObjectId\<close>.
\<close>

definition Interview_matching :: "env \<Rightarrow> state \<Rightarrow> string option \<Rightarrow> js_error + interview list" where
  "Interview_matching E st f =
     (case f of
        None \<Rightarrow> Inr (interviews st)
      | Some s \<Rightarrow>
          (case castObjectId E s of
             None \<Rightarrow> Inl (CastError ''candidate'')
           | Some i \<Rightarrow> Inr (filter (\<lambda>iv. i_candidate iv = i) (interviews st))))"

text \<open>\<^verbatim>\<open>.populate('candidate')\<close>: the referenced candidate, or \<^verbatim>\<open>null\<close> when there is none.\<close>

definition populate :: "state \<Rightarrow> interview \<Rightarrow> interview \<times> candidate option" where
  "populate st iv = (iv, find (\<lambda>c. c_id c = i_candidate iv) (candidates st))"

definition Interview_find_sorted ::
  "env \<Rightarrow> state \<Rightarrow> string option \<Rightarrow> js_error + (interview \<times> candidate option) list" where
  "Interview_find_sorted E st f =
     (case Interview_matching E st f of
        Inl err \<Rightarrow> Inl err
      | Inr ivs \<Rightarrow> Inr (map (populate st) (sort_key (\<lambda>iv. - i_date iv) ivs)))"

definition Interview_countDocuments :: "env \<Rightarrow> state \<Rightarrow> string option \<Rightarrow> js_error + nat" where
  "Interview_countDocuments E st f =
     (case Interview_matching E st f of Inl err \<Rightarrow> Inl err | Inr ivs \<Rightarrow> Inr (length ivs))"


section \<open>Routes\<close>

subsection \<open>\<^verbatim>\<open>POST /api/auth/signup\<close>\<close>

definition signup_validators :: "env \<Rightarrow> request \<Rightarrow> (string \<times> string) list" where
  "signup_validators E req =
     chain ''name'' ''Name required'' (notEmpty (toString_val (body req ''name'')))
     @ chain ''email'' ''Valid email required'' (isEmail E (toString_val (body req ''email'')))
     @ chain ''password'' ''Password min 6 chars''
         (isLength_min 6 (toString_val (body req ''password'')))"

text \<open>\<^verbatim>\<open>bcrypt.hash\<close> and \<^verbatim>\<open>bcrypt.compare\<close> throw when the password is not a string.\<close>

definition signup :: "env \<Rightarrow> state \<Rightarrow> request \<Rightarrow> outcome \<times> state" where
  "signup E st req =
     (case checkValidation (signup_validators E req) of
        Some res \<Rightarrow> (Sent res, st)
      | None \<Rightarrow>
          (let name = body req ''name'';
               email = body req ''email'';
               password = body req ''password''
           in case User_findOne E st email of
                Some _ \<Rightarrow> (Sent \<lparr>status = 400, json = ErrorMsg ''Email already registered''\<rparr>, st)
              | None \<Rightarrow>
                  (case password of
                     JStr pw \<Rightarrow>
                       (let passwordHash = bcrypt_hash E pw;
                            user = new_User E name email passwordHash
                        in case User_save st user of
                             Inl err \<Rightarrow> (Thrown err, st)
                           | Inr st' \<Rightarrow>
                               (let token = jwt_sign E \<lparr>userId = u_id user, role = u_role user\<rparr>
                                in (Sent \<lparr>status = 200, json = TokenBody token\<rparr>, st')))
                   | _ \<Rightarrow> (Thrown (Error ''data must be a string or Buffer''), st))))"

subsection \<open>\<^verbatim>\<open>POST /api/auth/login\<close>\<close>



subsection \<open>\<^verbatim>\<open>POST /api/candidates\<close>\<close>

definition createCandidate_validators :: "request \<Rightarrow> (string \<times> string) list" where
  "createCandidate_validators req =
     chain ''name'' ''Invalid value'' (notEmpty (toString_val (body req ''name'')))
     @ chain ''role'' ''Invalid value'' (notEmpty (toString_val (body req ''role'')))
     @ chain ''experience'' ''Invalid value'' (isNumeric (toString_val (body req ''experience'')))"

text \<open>A destructuring default \<^verbatim>\<open>{ x = d }\<close> applies when the field is \<^verbatim>\<open>undefined\<close>.\<close>

definition default_to :: "jsval \<Rightarrow> jsval \<Rightarrow> jsval" where
  "default_to d v = (if v = JUndefined then d else v)"

definition new_Candidate :: "env \<Rightarrow> payload \<Rightarrow> request \<Rightarrow> candidate" where
  "new_Candidate E user req =
     (let name = body req ''name'';
          role = body req ''role'';
          experience = body req ''experience'';
          rating = default_to (JInt 0) (body req ''rating'');
          notes = default_to (JStr []) (body req ''notes'')
      in \<lparr>c_id = newObjectId E,
          c_name = castRequiredString name,
          c_role = castRequiredString role,
          c_experience = Number_val experience,
          c_rating = Number_val rating,
          c_notes = castString notes,
          c_createdBy = userId user,
          c_createdAt = now E,
          c_updatedAt = now E\<rparr>)"

definition createCandidate_handler :: "env \<Rightarrow> state \<Rightarrow> payload \<Rightarrow> request \<Rightarrow> outcome \<times> state" where
  "createCandidate_handler E st user req =
     (case checkValidation (createCandidate_validators req) of
        Some res \<Rightarrow> (Sent res, st)
      | None \<Rightarrow>
          (let candidate = new_Candidate E user req
           in case Candidate_save st candidate of
                Inl err \<Rightarrow> (Thrown err, st)
              | Inr st' \<Rightarrow> (Sent \<lparr>status = 201, json = CandidateBody candidate\<rparr>, st')))"

definition createCandidate :: "env \<Rightarrow> state \<Rightarrow> request \<Rightarrow> outcome \<times> state" where
  "createCandidate E st req = protected E st req (\<lambda>user. createCandidate_handler E st user req)"

subsection \<open>\<^verbatim>\<open>GET /api/candidates\<close>\<close>

definition candidateFilter :: "request \<Rightarrow> cfilter" where
  "candidateFilter req =
     (let q = query req ''q'';
          role = query req ''role'';
          minExp = query req ''minExp''
      in \<lparr>f_name = (if truthy_str q then q else None),
          f_role = (if truthy_str role then role else None),
          f_experience = (if truthy_str minExp then map_option Number_str minExp else None)\<rparr>)"

text \<open>\<^verbatim>\<open>let { page = 1 } = req.query; page = Number(page) || 1\<close>.\<close>

definition page_of :: "string option \<Rightarrow> jsnum" where
  "page_of page =
     (let p = (case page of None \<Rightarrow> Fin 1 | Some s \<Rightarrow> Number_str s)
      in if truthy_num p then p else Fin 1)"

text \<open>\<^verbatim>\<open>limit = Math.min(Number(limit) || 10, 100)\<close>, for a \<^verbatim>\<open>limit\<close> other than \<^verbatim>\<open>'all'\<close>.\<close>

definition limit_of :: "string option \<Rightarrow> jsnum" where
  "limit_of limit =
     (let n = (case limit of None \<Rightarrow> NaN | Some s \<Rightarrow> Number_str s)
      in Math_min (if truthy_num n then n else Fin 10) (Fin 100))"

definition skip_of :: "jsnum \<Rightarrow> jsnum \<Rightarrow> jsnum" where
  "skip_of page limit = js_mul (js_sub page (Fin 1)) limit"

definition listCandidates_handler :: "env \<Rightarrow> state \<Rightarrow> request \<Rightarrow> outcome \<times> state" where
  "listCandidates_handler E st req =
     (let filter' = candidateFilter req;
          page = page_of (query req ''page'')
      in if query req ''limit'' = Some ''all''
         then (case Candidate_find_sorted E st filter' of
                 Inl err \<Rightarrow> (Thrown err, st)
               | Inr data \<Rightarrow> (Sent \<lparr>status = 200, json = CandidatePage data (length data)\<rparr>, st))
         else
           (let limit = limit_of (query req ''limit'');
                skip = skip_of page limit
            in case Candidate_find_sorted E st filter' of
                 Inl err \<Rightarrow> (Thrown err, st)
               | Inr found \<Rightarrow>
                   (case skip_limit skip limit found of
                      None \<Rightarrow> (Outside, st)
                    | Some data \<Rightarrow>
                        (case Candidate_countDocuments E st filter' of
                           Inl err \<Rightarrow> (Thrown err, st)
                         | Inr total' \<Rightarrow>
                             (Sent \<lparr>status = 200, json = CandidatePage data total'\<rparr>, st)))))"

definition listCandidates :: "env \<Rightarrow> state \<Rightarrow> request \<Rightarrow> outcome \<times> state" where
  "listCandidates E st req = protected E st req (\<lambda>user. listCandidates_handler E st req)"

subsection \<open>\<^verbatim>\<open>GET /api/candidates/:id\<close>\<close>

definition getCandidate_handler :: "env \<Rightarrow> state \<Rightarrow> request \<Rightarrow> outcome \<times> state" where
  "getCandidate_handler E st req =
     (case checkValidation (chain ''id'' ''Invalid value'' (isMongoId E (params req ''id''))) of
        Some res \<Rightarrow> (Sent res, st)
      | None \<Rightarrow>
          (case Candidate_findById E st (JStr (params req ''id'')) of
             Inl err \<Rightarrow> (Thrown err, st)
           | Inr None \<Rightarrow> (Sent \<lparr>status = 404, json = ErrorMsg ''Candidate not found''\<rparr>, st)
           | Inr (Some candidate) \<Rightarrow> (Sent \<lparr>status = 200, json = CandidateBody candidate\<rparr>, st)))"

definition getCandidate :: "env \<Rightarrow> state \<Rightarrow> request \<Rightarrow> outcome \<times> state" where
  "getCandidate E st req = protected E st req (\<lambda>user. getCandidate_handler E st req)"

subsection \<open>\<^verbatim>\<open>POST /api/interviews\<close>\<close>

text \<open>\<^verbatim>\<open>.optional()\<close> skips the validators of a chain when the field is \<^verbatim>\<open>undefined\<close>.\<close>

definition optional :: "jsval \<Rightarrow> bool \<Rightarrow> bool" where
  "optional v ok = (v = JUndefined \<or> ok)"

definition createInterview_validators :: "env \<Rightarrow> request \<Rightarrow> (string \<times> string) list" where
  "createInterview_validators E req =
     chain ''candidate'' ''Invalid value'' (isMongoId E (toString_val (body req ''candidate'')))
     @ chain ''date'' ''Invalid value'' (notEmpty (toString_val (body req ''date'')))
     @ chain ''interviewer'' ''Invalid value'' (notEmpty (toString_val (body req ''interviewer'')))
     @ chain ''mode'' ''Invalid value''
         (optional (body req ''mode'') (isIn [''onsite'', ''remote''] (toString_val (body req ''mode''))))"

definition new_Interview :: "env \<Rightarrow> payload \<Rightarrow> request \<Rightarrow> oid \<Rightarrow> interview" where
  "new_Interview E user req cid =
     (let date = body req ''date'';
          interviewer = body req ''interviewer'';
          mode = default_to (JStr ''remote'') (body req ''mode'')
      in \<lparr>i_id = newObjectId E,
          i_candidate = cid,
          i_date = (case newDate E date of None \<Rightarrow> 0 | Some t \<Rightarrow> t),
          i_interviewer = castRequiredString interviewer,
          i_mode = castRequiredString mode,
          i_feedback = \<lparr>fb_rating = None, fb_notes = None\<rparr>,
          i_createdBy = userId user,
          i_createdAt = now E,
          i_updatedAt = now E\<rparr>)"

definition Interview_save :: "env \<Rightarrow> state \<Rightarrow> request \<Rightarrow> interview \<Rightarrow> js_error + state" where
  "Interview_save E st req iv =
     (let paths = Interview_validate iv (newDate E (body req ''date'') \<noteq> None)
      in if paths \<noteq> [] then Inl (ValidationError paths)
         else Inr (st\<lparr>interviews := interviews st @ [iv]\<rparr>))"

definition createInterview_handler :: "env \<Rightarrow> state \<Rightarrow> payload \<Rightarrow> request \<Rightarrow> outcome \<times> state" where
  "createInterview_handler E st user req =
     (case checkValidation (createInterview_validators E req) of
        Some res \<Rightarrow> (Sent res, st)
      | None \<Rightarrow>
          (let candidate = body req ''candidate''
           in case Candidate_findById E st candidate of
                Inl err \<Rightarrow> (Thrown err, st)
              | Inr None \<Rightarrow> (Sent \<lparr>status = 404, json = ErrorMsg ''Candidate not found''\<rparr>, st)
              | Inr (Some c) \<Rightarrow>
                  (let iv = new_Interview E user req (c_id c)
                   in case Interview_save E st req iv of
                        Inl err \<Rightarrow> (Thrown err, st)
                      | Inr st' \<Rightarrow> (Sent \<lparr>status = 201, json = InterviewBody iv\<rparr>, st'))))"

definition createInterview :: "env \<Rightarrow> state \<Rightarrow> request \<Rightarrow> outcome \<times> state" where
  "createInterview E st req = protected E st req (\<lambda>user. createInterview_handler E st user req)"

subsection \<open>\<^verbatim>\<open>GET /api/interviews\<close>\<close>

definition interviewFilter :: "request \<Rightarrow> string option" where
  "interviewFilter req =
     (let candidateId = query req ''candidateId''
      in if truthy_str candidateId then candidateId else None)"

definition listInterviews_handler :: "env \<Rightarrow> state \<Rightarrow> request \<Rightarrow> outcome \<times> state" where
  "listInterviews_handler E st req =
     (let filter' = interviewFilter req;
          page = page_of (query req ''page'')
      in if query req ''limit'' = Some ''all''
         then (case Interview_find_sorted E st filter' of
                 Inl err \<Rightarrow> (Thrown err, st)
               | Inr data \<Rightarrow> (Sent \<lparr>status = 200, json = InterviewPage data (length data)\<rparr>, st))
         else
           (let limit = limit_of (query req ''limit'');
                skip = skip_of page limit
            in case Interview_find_sorted E st filter' of
                 Inl err \<Rightarrow> (Thrown err, st)
               | Inr found \<Rightarrow>
                   (case skip_limit skip limit found of
                      None \<Rightarrow> (Outside, st)
                    | Some data \<Rightarrow>
                        (case Interview_countDocuments E st filter' of
                           Inl err \<Rightarrow> (Thrown err, st)
                         | Inr total' \<Rightarrow>
                             (Sent \<lparr>status = 200, json = InterviewPage data total'\<rparr>, st)))))"

definition listInterviews :: "env \<Rightarrow> state \<Rightarrow> request \<Rightarrow> outcome \<times> state" where
  "listInterviews E st req = protected E st req (\<lambda>user. listInterviews_handler E st req)"

subsection \<open>\<^verbatim>\<open>POST /api/interviews/:id/feedback\<close>\<close>

definition setFeedback_validators :: "env \<Rightarrow> request \<Rightarrow> (string \<times> string) list" where
  "setFeedback_validators E req =
     chain ''id'' ''Invalid value'' (isMongoId E (params req ''id''))
     @ chain ''rating'' ''Invalid value''
         (optional (body req ''rating'') (isNumeric (toString_val (body req ''rating''))))
     @ chain ''notes'' ''Invalid value'' (optional (body req ''notes'') (isString (body req ''notes'')))"

text \<open>
  \<^verbatim>\<open>iv.feedback = {}\<close>, then one assignment for each of \<^verbatim>\<open>rating\<close> and \<^verbatim>\<open>notes\<close> that is
  not \<^verbatim>\<open>undefined\<close> in the body.
\<close>

definition feedback_of :: "request \<Rightarrow> feedback" where
  "feedback_of req =
     (let fb0 = \<lparr>fb_rating = None, fb_notes = None\<rparr>;
          fb1 = (if body req ''rating'' \<noteq> JUndefined
                 then fb0\<lparr>fb_rating := Some (Number_val (body req ''rating''))\<rparr> else fb0);
          fb2 = (if body req ''notes'' \<noteq> JUndefined
                 then fb1\<lparr>fb_notes := castString (body req ''notes'')\<rparr> else fb1)
      in fb2)"

definition setFeedback_handler :: "env \<Rightarrow> state \<Rightarrow> request \<Rightarrow> outcome \<times> state" where
  "setFeedback_handler E st req =
     (case checkValidation (setFeedback_validators E req) of
        Some res \<Rightarrow> (Sent res, st)
      | None \<Rightarrow>
          (case Interview_findById E st (params req ''id'') of
             Inl err \<Rightarrow> (Thrown err, st)
           | Inr None \<Rightarrow> (Sent \<lparr>status = 404, json = ErrorMsg ''Interview not found''\<rparr>, st)
           | Inr (Some iv0) \<Rightarrow>
               (let iv = iv0\<lparr>i_feedback := feedback_of req, i_updatedAt := now E\<rparr>
                in if fb_rating (i_feedback iv) = Some NaN
                   then (Thrown (ValidationError [''feedback.rating'']), st)
                   else (Sent \<lparr>status = 200, json = InterviewBody iv\<rparr>,
                         st\<lparr>interviews := Interview_update iv (interviews st)\<rparr>))))"

definition setFeedback :: "env \<Rightarrow> state \<Rightarrow> request \<Rightarrow> outcome \<times> state" where
  "setFeedback E st req = protected E st req (\<lambda>user. setFeedback_handler E st req)"


section \<open>Notions used in the properties\<close>

text \<open>
  An outcome that refuses the request: an error response (status 400 or above), or an
  error passed to \<^verbatim>\<open>next\<close>, which is answered with an error status.
\<close>

definition rejected :: "outcome \<Rightarrow> bool" where
  "rejected out = (case out of Sent res \<Rightarrow> 400 \<le> status res | Thrown err \<Rightarrow> True | Outside \<Rightarrow> False)"

text \<open>The request \<open>req\<close> with the query parameter \<^verbatim>\<open>minExp\<close> left out.\<close>

definition without_minExp :: "request \<Rightarrow> request" where
  "without_minExp req = req\<lparr>query := (query req)(''minExp'' := None)\<rparr>"

text \<open>Every stored candidate has an experience of at least \<open>0\<close>, as the schema demands.\<close>

definition experience_nonneg :: "state \<Rightarrow> bool" where
  "experience_nonneg st = list_all (\<lambda>c. js_le (Fin 0) (c_experience c)) (candidates st)"

section \<open>An example deployment\<close>

text \<open>
  A concrete environment, store and requests on which the handlers are evaluated. The
  library functions of \<open>env0\<close> are simple stand-ins: an email contains \<^verbatim>\<open>@\<close>, an identifier
  is 24 hexadecimal digits, every pattern matches, a date is a number of milliseconds,
  and two tokens verify, one with the role \<^verbatim>\<open>hr\<close> and one with the role \<^verbatim>\<open>guest\<close>.
\<close>

definition hex24 :: "string \<Rightarrow> bool" where
  "hex24 s = (length s = 24 \<and> list_all (is_digit_in 16) s)"

definition env0 :: env where
  "env0 =
     \<lparr>isEmail = (\<lambda>s. CHR ''@'' \<in> set s),
      isMongoId = hex24,
      castObjectId = (\<lambda>s. if hex24 s then Some (toLowerCase s) else None),
      regex_i = (\<lambda>q. Some (\<lambda>s. True)),
      newDate = (\<lambda>v. case v of JInt t \<Rightarrow> Some t | _ \<Rightarrow> None),
      bcrypt_hash = (\<lambda>pw. ''$2b$10$'' @ pw),
      bcrypt_compare = (\<lambda>pw h. h = ''$2b$10$'' @ pw),
      jwt_sign = (\<lambda>p. userId p @ ''.'' @ role p),
      jwt_verify = (\<lambda>t. if t = ''token-hr'' then Some \<lparr>userId = ''aaaaaaaaaaaaaaaaaaaaaaaa'', role = ''hr''\<rparr>
                        else if t = ''token-guest''
                        then Some \<lparr>userId = ''bbbbbbbbbbbbbbbbbbbbbbbb'', role = ''guest''\<rparr>
                        else None),
      runSettersOnQuery = True,
      now = 1000,
      newObjectId = ''0123456789abcdef01234567''\<rparr>"

definition st0 :: state where
  "st0 = \<lparr>users = [], candidates = [], interviews = []\<rparr>"

text \<open>A request with nothing in it, and the same request with a bearer token.\<close>

definition req0 :: request where
  "req0 = \<lparr>authorization = None, body = (\<lambda>_. JUndefined), query = (\<lambda>_. None), params = (\<lambda>_. [])\<rparr>"

definition bearer :: "string \<Rightarrow> request \<Rightarrow> request" where
  "bearer t req = req\<lparr>authorization := Some (''Bearer '' @ t)\<rparr>"

text \<open>A request to create the candidate Bob, with a valid token and the given experience.\<close>

definition candidate_req :: "jsval \<Rightarrow> request" where
  "candidate_req e =
     bearer ''token-hr''
       (req0\<lparr>body := (\<lambda>_. JUndefined)(''name'' := JStr ''Bob'', ''role'' := JStr ''Eng'', ''experience'' := e)\<rparr>)"

text \<open>A store with one interview, and feedback requests for it.\<close>

definition iv0 :: interview where
  "iv0 = \<lparr>i_id = ''cccccccccccccccccccccccc'', i_candidate = ''dddddddddddddddddddddddd'', i_date = 5000,
          i_interviewer = ''Ann'', i_mode = ''remote'', i_feedback = \<lparr>fb_rating = None, fb_notes = None\<rparr>,
          i_createdBy = ''aaaaaaaaaaaaaaaaaaaaaaaa'', i_createdAt = 900, i_updatedAt = 900\<rparr>"

definition st_iv :: state where
  "st_iv = \<lparr>users = [], candidates = [], interviews = [iv0]\<rparr>"

definition feedback_req :: "(string \<Rightarrow> jsval) \<Rightarrow> request" where
  "feedback_req b =
     bearer ''token-hr'' (req0\<lparr>body := b, params := (\<lambda>_. [])(''id'' := ''CCCCCCCCCCCCCCCCCCCCCCCC'')\<rparr>)"

definition fb_rating4 :: "string \<Rightarrow> jsval" where
  "fb_rating4 = (\<lambda>_. JUndefined)(''rating'' := JInt 4)"

definition fb_notes_ok :: "string \<Rightarrow> jsval" where
  "fb_notes_ok = (\<lambda>_. JUndefined)(''notes'' := JStr ''ok'')"

text \<open>Two signups for the same mailbox, written in different casing.\<close>

definition signup_req :: "string \<Rightarrow> request" where
  "signup_req e =
     req0\<lparr>body := (\<lambda>_. JUndefined)(''name'' := JStr ''A'', ''email'' := JStr e, ''password'' := JStr ''secret1'')\<rparr>"



text \<open>
  Requests to schedule an interview for a candidate that is not in the store: one
  complete, one without a date.
\<close>

definition interview_req :: "jsval \<Rightarrow> request" where
  "interview_req d =
     bearer ''token-hr''
       (req0\<lparr>body := (\<lambda>_. JUndefined)(''candidate'' := JStr ''eeeeeeeeeeeeeeeeeeeeeeee'',
                                          ''date'' := d, ''interviewer'' := JStr ''Ann'')\<rparr>)"

text \<open>
  A store with twelve candidates, created at the instants \<open>0\<close> to \<open>11\<close> with as many years
  of experience, and list requests with the given query parameters.
\<close>

definition cand :: "nat \<Rightarrow> candidate" where
  "cand n =
     \<lparr>c_id = String_int (int n), c_name = ''C'', c_role = ''Eng'', c_experience = Fin (of_nat n),
      c_rating = Fin 0, c_notes = Some [], c_createdBy = ''aaaaaaaaaaaaaaaaaaaaaaaa'',
      c_createdAt = int n, c_updatedAt = int n\<rparr>"

definition st12 :: state where
  "st12 = \<lparr>users = [], candidates = map cand [0..<12], interviews = []\<rparr>"

definition list_req :: "(string \<times> string) list \<Rightarrow> request" where
  "list_req ps = bearer ''token-hr'' (req0\<lparr>query := map_of ps\<rparr>)"

section \<open>Basic facts\<close>

lemma castRequiredString_toString: "castRequiredString v = toString_val v"
  by (cases v) (simp_all add: castRequiredString_def castString_def toString_val_def)

lemma checkValidation_Nil [simp]: "checkValidation [] = None"
  by (simp add: checkValidation_def)

lemma checkValidation_Cons [simp]: "checkValidation (e # es) = Some \<lparr>status = 400, json = Errors (e # es)\<rparr>"
  by (simp add: checkValidation_def)

lemma chain_simps [simp]: "chain f m True = []" "chain f m False = [(f, m)]"
  by (simp_all add: chain_def)

section \<open>Properties of the auth middleware\<close>

lemma truthy_str_Some [simp]: "truthy_str (Some h) = (h \<noteq> [])"
  by (simp add: truthy_str_def)

lemma truthy_str_None [simp]: "\<not> truthy_str None"
  by (simp add: truthy_str_def)

text \<open>
  Claim C9. Every protected route is its handler behind \<^verbatim>\<open>auth('hr')\<close>. Without an
  \<^verbatim>\<open>Authorization\<close> header the response is 401 \<^verbatim>\<open>No token provided\<close> (an empty header
  value presents no token either and gets the same answer); when the header carries a
  token that \<^verbatim>\<open>jwt.verify\<close> refuses (bad signature, expired) the response is 401
  \<^verbatim>\<open>Invalid token\<close>; when the token verifies and its role claim is not \<^verbatim>\<open>hr\<close> the
  response is 403 \<^verbatim>\<open>Forbidden\<close>; otherwise the handler runs on the decoded claims. In
  the first three cases the store is untouched.
\<close>

theorem protected_route_gate:
  "(authorization req = None \<longrightarrow>
      protected E st req handler = (Sent \<lparr>status = 401, json = ErrorMsg ''No token provided''\<rparr>, st))
   \<and> (authorization req = Some [] \<longrightarrow>
      protected E st req handler = (Sent \<lparr>status = 401, json = ErrorMsg ''No token provided''\<rparr>, st))
   \<and> (authorization req = Some h \<and> h \<noteq> [] \<and> jwt_verify E (replace_first ''Bearer '' [] h) = None \<longrightarrow>
      protected E st req handler = (Sent \<lparr>status = 401, json = ErrorMsg ''Invalid token''\<rparr>, st))
   \<and> (authorization req = Some h \<and> h \<noteq> [] \<and> jwt_verify E (replace_first ''Bearer '' [] h) = Some p
        \<and> role p \<noteq> ''hr'' \<longrightarrow>
      protected E st req handler = (Sent \<lparr>status = 403, json = ErrorMsg ''Forbidden''\<rparr>, st))
   \<and> (authorization req = Some h \<and> h \<noteq> [] \<and> jwt_verify E (replace_first ''Bearer '' [] h) = Some p
        \<and> role p = ''hr'' \<longrightarrow>
      protected E st req handler = handler p)"
  by (simp add: protected_def auth_def)

theorem protected_route_gate_witness:
  "protected env0 st0 req0 (\<lambda>user. (Outside, st0))
     = (Sent \<lparr>status = 401, json = ErrorMsg ''No token provided''\<rparr>, st0)
   \<and> protected env0 st0 (bearer ''forged'' req0) (\<lambda>user. (Outside, st0))
     = (Sent \<lparr>status = 401, json = ErrorMsg ''Invalid token''\<rparr>, st0)
   \<and> protected env0 st0 (bearer ''token-guest'' req0) (\<lambda>user. (Outside, st0))
     = (Sent \<lparr>status = 403, json = ErrorMsg ''Forbidden''\<rparr>, st0)
   \<and> protected env0 st0 (bearer ''token-hr'' req0) (\<lambda>user. (Outside, st0)) = (Outside, st0)"
proof -
  have none: "authorization req0 = None"
    by (simp add: req0_def)
  have hdr: "\<And>t. authorization (bearer t req0) = Some (''Bearer '' @ t) \<and> ''Bearer '' @ t \<noteq> []"
    by (simp add: bearer_def)
  have tok: "\<And>t. replace_first ''Bearer '' [] (''Bearer '' @ t) = t"
    by simp
  have v1: "jwt_verify env0 ''forged'' = None"
    by (simp add: env0_def)
  have v2: "jwt_verify env0 ''token-guest'' = Some \<lparr>userId = ''bbbbbbbbbbbbbbbbbbbbbbbb'', role = ''guest''\<rparr>"
    by (simp add: env0_def)
  have v3: "jwt_verify env0 ''token-hr'' = Some \<lparr>userId = ''aaaaaaaaaaaaaaaaaaaaaaaa'', role = ''hr''\<rparr>"
    by (simp add: env0_def)
  show ?thesis
    using none hdr tok v1 v2 v3
      protected_route_gate [where req = req0 and E = env0 and st = st0
        and handler = "\<lambda>user. (Outside, st0)"]
      protected_route_gate [where req = "bearer ''forged'' req0" and h = "''Bearer forged''"
        and E = env0 and st = st0 and handler = "\<lambda>user. (Outside, st0)"]
      protected_route_gate [where req = "bearer ''token-guest'' req0" and h = "''Bearer token-guest''"
        and E = env0 and st = st0 and handler = "\<lambda>user. (Outside, st0)"
        and p = "\<lparr>userId = ''bbbbbbbbbbbbbbbbbbbbbbbb'', role = ''guest''\<rparr>"]
      protected_route_gate [where req = "bearer ''token-hr'' req0" and h = "''Bearer token-hr''"
        and E = env0 and st = st0 and handler = "\<lambda>user. (Outside, st0)"
        and p = "\<lparr>userId = ''aaaaaaaaaaaaaaaaaaaaaaaa'', role = ''hr''\<rparr>"]
    by simp
qed

section \<open>Properties of pagination\<close>

lemma js_le_Fin [simp]: "js_le (Fin a) (Fin b) = (a \<le> b)"
  by (simp add: js_le_def)

lemma limit_of_le_100: "js_le (limit_of l) (Fin 100)"
  by (cases "case l of None \<Rightarrow> NaN | Some s \<Rightarrow> Number_str s")
     (auto simp: limit_of_def Math_min_def truthy_num_def js_le_def Let_def)

text \<open>
  Claim C3, as the code has it. The effective limit of a list request is never above 100
  and it is 10 when the parameter is missing or when \<^verbatim>\<open>Number(limit)\<close> is \<open>NaN\<close> or \<open>0\<close>;
  \<^verbatim>\<open>limit=500\<close> gives 100. There is no lower bound: every other number up to 100,
  negative and fractional ones included, is the effective limit as it stands.
\<close>

theorem limit_of_clamped_above:
  "js_le (limit_of l) (Fin 100)
   \<and> limit_of None = Fin 10
   \<and> (Number_str s = NaN \<or> Number_str s = Fin 0 \<longrightarrow> limit_of (Some s) = Fin 10)
   \<and> limit_of (Some ''500'') = Fin 100
   \<and> (Number_str s = Fin r \<and> r \<noteq> 0 \<and> r \<le> 100 \<longrightarrow> limit_of (Some s) = Fin r)"
proof -
  have "limit_of None = Fin 10"
    by (simp add: limit_of_def Math_min_def truthy_num_def)
  moreover have "Number_str s = NaN \<or> Number_str s = Fin 0 \<longrightarrow> limit_of (Some s) = Fin 10"
    by (auto simp: limit_of_def Math_min_def truthy_num_def)
  moreover have "limit_of (Some ''500'') = Fin 100"
    by code_simp
  moreover have "Number_str s = Fin r \<and> r \<noteq> 0 \<and> r \<le> 100 \<longrightarrow> limit_of (Some s) = Fin r"
    by (auto simp: limit_of_def Math_min_def truthy_num_def)
  ultimately show ?thesis
    using limit_of_le_100 [of l] by simp
qed

theorem limit_of_clamped_above_witness:
  "limit_of (Some ''abc'') = Fin 10 \<and> limit_of (Some ''7'') = Fin 7"
proof -
  have a: "Number_str ''abc'' = NaN"
    by code_simp
  have b: "Number_str ''7'' = Fin 7 \<and> (7::rat) \<noteq> 0 \<and> (7::rat) \<le> 100"
    by code_simp
  show ?thesis
    using a b limit_of_clamped_above [of None "''abc''" 0] limit_of_clamped_above [of None "''7''" 7]
    by simp
qed

theorem limit_below_one_counterexample:
  "limit_of (Some ''-5'') = Fin (- 5) \<and> \<not> js_le (Fin 1) (limit_of (Some ''-5''))"
  by code_simp

section \<open>Creating a candidate\<close>

lemma numeric_minus_one: "isNumeric (toString_val (JInt (- 1)))" "isNumeric (toString_val (JStr ''-1''))"
  "Number_val (JInt (- 1)) = Fin (- 1)" "Number_val (JStr ''-1'') = Fin (- 1)"
  by code_simp+

lemma numeric_zero: "isNumeric (toString_val (JInt 0))" "isNumeric (toString_val (JStr ''0''))"
  "Number_val (JInt 0) = Fin 0" "Number_val (JStr ''0'') = Fin 0"
  by code_simp+

lemma status_thrown_validation:
  "map_option status (respond (Thrown (ValidationError ps))) = Some 500"
  "status (errorHandler (ValidationError ps)) = 500"
  by (simp_all add: respond_def finalhandler_def errorHandler_def err_status_def err_name_def)

text \<open>
  Claim C1, as the code has it. Take an authenticated request to create a candidate
  whose name and role pass validation. With experience \<open>-1\<close> (as a number or as the string
  \<^verbatim>\<open>"-1"\<close>) the request passes the validator \<^verbatim>\<open>isNumeric\<close>; the schema's \<^verbatim>\<open>min: 0\<close>
  then fails when the document is saved, the validation error is passed to \<^verbatim>\<open>next\<close>, and
  the answer has status 500, both from Express's default handler and from the error
  handler of \<^verbatim>\<open>server.js\<close>; no candidate is stored. With experience \<open>0\<close> (and a rating that
  is absent or a number) the answer is 201 with the new candidate, which is stored.
\<close>

theorem createCandidate_experience_bound:
  assumes "auth E ''hr'' req = Inr user"
    and "toString_val (body req ''name'') \<noteq> []"
    and "toString_val (body req ''role'') \<noteq> []"
  shows "(body req ''experience'' = JInt (- 1) \<or> body req ''experience'' = JStr ''-1'' \<longrightarrow>
            createCandidate E st req
              = (Thrown (ValidationError (Candidate_validate (new_Candidate E user req))), st)
            \<and> ''experience'' \<in> set (Candidate_validate (new_Candidate E user req))
            \<and> map_option status (respond (fst (createCandidate E st req))) = Some 500
            \<and> status (errorHandler (ValidationError (Candidate_validate (new_Candidate E user req)))) = 500)
       \<and> ((body req ''experience'' = JInt 0 \<or> body req ''experience'' = JStr ''0'')
            \<and> Number_val (default_to (JInt 0) (body req ''rating'')) \<noteq> NaN \<longrightarrow>
            createCandidate E st req
              = (Sent \<lparr>status = 201, json = CandidateBody (new_Candidate E user req)\<rparr>,
                 st\<lparr>candidates := candidates st @ [new_Candidate E user req]\<rparr>)
            \<and> c_experience (new_Candidate E user req) = Fin 0)"
proof -
  have v: "body req ''experience'' \<in> {JInt (- 1), JStr ''-1'', JInt 0, JStr ''0''} \<Longrightarrow>
      createCandidate_validators req = []"
    using assms(2,3) numeric_minus_one numeric_zero
    by (auto simp: createCandidate_validators_def notEmpty_def)
  have neg: "body req ''experience'' = JInt (- 1) \<or> body req ''experience'' = JStr ''-1'' \<Longrightarrow>
      c_experience (new_Candidate E user req) = Fin (- 1)"
    using numeric_minus_one by (auto simp: new_Candidate_def Let_def)
  have zero: "body req ''experience'' = JInt 0 \<or> body req ''experience'' = JStr ''0'' \<Longrightarrow>
      c_experience (new_Candidate E user req) = Fin 0"
    using numeric_zero by (auto simp: new_Candidate_def Let_def)
  have names: "c_name (new_Candidate E user req) \<noteq> []" "c_role (new_Candidate E user req) \<noteq> []"
    using assms(2,3) by (simp_all add: new_Candidate_def Let_def castRequiredString_toString)
  have rating: "c_rating (new_Candidate E user req) = Number_val (default_to (JInt 0) (body req ''rating''))"
    by (simp add: new_Candidate_def Let_def)
  show ?thesis
  proof (intro conjI impI)
    assume a: "body req ''experience'' = JInt (- 1) \<or> body req ''experience'' = JStr ''-1''"
    then have bad: "''experience'' \<in> set (Candidate_validate (new_Candidate E user req))"
      using neg by (simp add: Candidate_validate_def)
    then show "''experience'' \<in> set (Candidate_validate (new_Candidate E user req))" .
    from bad have ne: "Candidate_validate (new_Candidate E user req) \<noteq> []" by auto
    show run: "createCandidate E st req
              = (Thrown (ValidationError (Candidate_validate (new_Candidate E user req))), st)"
      using a v ne assms(1)
      by (auto simp: createCandidate_def protected_def createCandidate_handler_def Candidate_save_def Let_def)
    show "map_option status (respond (fst (createCandidate E st req))) = Some 500"
      by (simp add: run status_thrown_validation)
    show "status (errorHandler (ValidationError (Candidate_validate (new_Candidate E user req)))) = 500"
      by (simp add: status_thrown_validation)
  next
    assume a: "(body req ''experience'' = JInt 0 \<or> body req ''experience'' = JStr ''0'')
            \<and> Number_val (default_to (JInt 0) (body req ''rating'')) \<noteq> NaN"
    then show "c_experience (new_Candidate E user req) = Fin 0" using zero by simp
    have ok: "Candidate_validate (new_Candidate E user req) = []"
      using a zero names rating by (simp add: Candidate_validate_def)
    show "createCandidate E st req
              = (Sent \<lparr>status = 201, json = CandidateBody (new_Candidate E user req)\<rparr>,
                 st\<lparr>candidates := candidates st @ [new_Candidate E user req]\<rparr>)"
      using a v ok assms(1)
      by (auto simp: createCandidate_def protected_def createCandidate_handler_def Candidate_save_def Let_def)
  qed
qed

lemma auth_hr: "auth env0 ''hr'' (candidate_req e) = Inr \<lparr>userId = ''aaaaaaaaaaaaaaaaaaaaaaaa'', role = ''hr''\<rparr>"
  by (simp add: auth_def candidate_req_def bearer_def req0_def env0_def)

theorem createCandidate_minus_one_counterexample:
  "createCandidate env0 st0 (candidate_req (JInt (- 1))) = (Thrown (ValidationError [''experience'']), st0)
   \<and> map_option status (respond (fst (createCandidate env0 st0 (candidate_req (JInt (- 1)))))) = Some 500
   \<and> status (errorHandler (ValidationError [''experience''])) = 500"
  by code_simp

theorem createCandidate_experience_bound_witness:
  "fst (createCandidate env0 st0 (candidate_req (JStr ''-1''))) = Thrown (ValidationError [''experience''])
   \<and> map_option status (respond (fst (createCandidate env0 st0 (candidate_req (JStr ''-1''))))) = Some 500
   \<and> map c_experience (candidates (snd (createCandidate env0 st0 (candidate_req (JStr ''0''))))) = [Fin 0]"
proof -
  have b: "\<And>e. toString_val (body (candidate_req e) ''name'') \<noteq> [] \<and> toString_val (body (candidate_req e) ''role'') \<noteq> []
     \<and> body (candidate_req e) ''experience'' = e \<and> body (candidate_req e) ''rating'' = JUndefined"
    by (simp add: candidate_req_def bearer_def req0_def toString_val_def)
  have r: "Number_val (default_to (JInt 0) JUndefined) \<noteq> NaN"
    by (simp add: default_to_def Number_val_def)
  have p: "Candidate_validate (new_Candidate env0 \<lparr>userId = ''aaaaaaaaaaaaaaaaaaaaaaaa'', role = ''hr''\<rparr> (candidate_req (JStr ''-1''))) = [''experience'']"
    by code_simp
  show ?thesis
    using b r p
      createCandidate_experience_bound [OF auth_hr, of "JStr ''-1''" st0]
      createCandidate_experience_bound [OF auth_hr, of "JStr ''0''" st0]
    by (simp add: st0_def status_thrown_validation)
qed

section \<open>Feedback\<close>

lemma find_Interview_update:
  "find (\<lambda>d. i_id d = i) ivs = Some old \<Longrightarrow> i_id iv = i \<Longrightarrow>
   find (\<lambda>d. i_id d = i) (Interview_update iv ivs) = Some iv"
  by (induction ivs) (auto split: if_splits)

lemma find_Some_id: "find (\<lambda>d. i_id d = i) ivs = Some iv \<Longrightarrow> i_id iv = i"
  by (induction ivs) (auto split: if_splits)

lemma optional_isString: "optional v (isString v) \<Longrightarrow> v \<noteq> JUndefined \<Longrightarrow> \<exists>s. v = JStr s"
  by (cases v) (simp_all add: optional_def isString_def)

lemma chain_eq_Nil [simp]: "(chain f m ok = []) = ok"
  by (simp add: chain_def)

lemma checkValidation_None [simp]: "(checkValidation es = None) = (es = [])"
  by (simp add: checkValidation_def)

lemma auth_Inl_status: "auth E rr req = Inl res \<Longrightarrow> status res = 401 \<or> status res = 403"
  by (auto simp: auth_def Let_def split: if_splits option.splits)

lemma setFeedback_success:
  assumes "setFeedback E st req = (Sent r, st')" and "status r = 200"
    and "castObjectId E (params req ''id'') = Some i"
  shows "map_option i_feedback (find (\<lambda>d. i_id d = i) (interviews st')) = Some (feedback_of req)
         \<and> optional (body req ''notes'') (isString (body req ''notes''))"
proof -
  from assms(1,2) obtain user where au: "auth E ''hr'' req = Inr user"
    using auth_Inl_status [of E "''hr''" req r]
    by (cases "auth E ''hr'' req") (auto simp: setFeedback_def protected_def)
  with assms(1) have h: "setFeedback_handler E st req = (Sent r, st')"
    by (simp add: setFeedback_def protected_def)
  have v: "setFeedback_validators E req = []"
    using h assms(2) by (auto simp: setFeedback_handler_def checkValidation_def split: if_splits)
  then have nt: "optional (body req ''notes'') (isString (body req ''notes''))"
    by (simp add: setFeedback_validators_def)
  from h v assms(2,3) obtain old where
    f: "find (\<lambda>d. i_id d = i) (interviews st) = Some old"
    and s: "st' = st\<lparr>interviews := Interview_update (old\<lparr>i_feedback := feedback_of req, i_updatedAt := now E\<rparr>) (interviews st)\<rparr>"
    by (auto simp: setFeedback_handler_def Interview_findById_def Let_def split: option.splits if_splits)
  have "i_id (old\<lparr>i_feedback := feedback_of req, i_updatedAt := now E\<rparr>) = i"
    using find_Some_id [OF f] by simp
  from find_Interview_update [OF f this] s nt show ?thesis by simp
qed

text \<open>
  Claim C2. Take two feedback calls, one after the other, the second of which succeeds
  on the interview \<open>i\<close>; the first may have set any feedback on it. The feedback stored
  after the second call is built from the second request alone: it has a rating exactly
  when the second body has one (the number \<^verbatim>\<open>Number(rating)\<close>), and notes exactly when
  the second body has them (a string, by validation); nothing of the first call is left.
\<close>

theorem setFeedback_replaces:
  assumes "setFeedback E1 st req1 = (out1, st1)"
    and "setFeedback E2 st1 req2 = (Sent r2, st2)" and "status r2 = 200"
    and "castObjectId E2 (params req2 ''id'') = Some i"
  shows "map_option i_feedback (find (\<lambda>d. i_id d = i) (interviews st2))
           = Some \<lparr>fb_rating = (if body req2 ''rating'' = JUndefined then None
                                else Some (Number_val (body req2 ''rating''))),
                   fb_notes = (case body req2 ''notes'' of JStr s \<Rightarrow> Some s | _ \<Rightarrow> None)\<rparr>
         \<and> (body req2 ''notes'' = JUndefined \<or> isString (body req2 ''notes''))"
proof -
  from setFeedback_success [OF assms(2,3,4)]
  have a: "map_option i_feedback (find (\<lambda>d. i_id d = i) (interviews st2)) = Some (feedback_of req2)"
    and b: "optional (body req2 ''notes'') (isString (body req2 ''notes''))"
    by simp_all
  have "feedback_of req2 = \<lparr>fb_rating = (if body req2 ''rating'' = JUndefined then None
                                else Some (Number_val (body req2 ''rating''))),
                   fb_notes = (case body req2 ''notes'' of JStr s \<Rightarrow> Some s | _ \<Rightarrow> None)\<rparr>"
    using optional_isString [OF b]
    by (cases "body req2 ''notes'' = JUndefined") (auto simp: feedback_of_def Let_def castString_def)
  with a b show ?thesis by (simp add: optional_def)
qed

text \<open>The call with \<^verbatim>\<open>{rating: 4}\<close> followed by the call with \<^verbatim>\<open>{notes: "ok"}\<close>.\<close>

theorem setFeedback_replaces_witness:
  "map_option i_feedback
     (find (\<lambda>d. i_id d = ''cccccccccccccccccccccccc'')
        (interviews (snd (setFeedback env0 (snd (setFeedback env0 st_iv (feedback_req fb_rating4)))
                            (feedback_req fb_notes_ok)))))
   = Some \<lparr>fb_rating = None, fb_notes = Some ''ok''\<rparr>"
proof -
  let ?st1 = "snd (setFeedback env0 st_iv (feedback_req fb_rating4))"
  let ?st2 = "snd (setFeedback env0 ?st1 (feedback_req fb_notes_ok))"
  have 1: "setFeedback env0 st_iv (feedback_req fb_rating4)
      = (Sent \<lparr>status = 200, json = InterviewBody (iv0\<lparr>i_feedback := \<lparr>fb_rating = Some (Fin 4), fb_notes = None\<rparr>, i_updatedAt := 1000\<rparr>)\<rparr>, ?st1)"
    by code_simp
  have 2: "setFeedback env0 ?st1 (feedback_req fb_notes_ok)
      = (Sent \<lparr>status = 200, json = InterviewBody (iv0\<lparr>i_feedback := \<lparr>fb_rating = None, fb_notes = Some ''ok''\<rparr>, i_updatedAt := 1000\<rparr>)\<rparr>, ?st2)"
    by code_simp
  have 3: "castObjectId env0 (params (feedback_req fb_notes_ok) ''id'') = Some ''cccccccccccccccccccccccc''"
    by code_simp
  have 4: "body (feedback_req fb_notes_ok) ''rating'' = JUndefined"
    "body (feedback_req fb_notes_ok) ''notes'' = JStr ''ok''"
    by (simp_all add: feedback_req_def fb_notes_ok_def bearer_def req0_def)
  show ?thesis
    using setFeedback_replaces [OF 1 2 _ 3] 4 by simp
qed

section \<open>Signup and login\<close>

lemma signup_success:
  assumes "signup E st req = (Sent r, st')" and "status r = 200" and "body req ''email'' = JStr e"
  shows "\<exists>u \<in> set (users st'). u_email u = toLowerCase e"
proof -
  have v: "signup_validators E req = []"
    using assms(1,2) by (auto simp: signup_def checkValidation_def split: if_splits)
  from assms v obtain pw where
    "st' = st\<lparr>users := users st @ [new_User E (body req ''name'') (JStr e) (bcrypt_hash E pw)]\<rparr>"
    by (auto simp: signup_def Let_def User_save_def split: option.splits jsval.splits sum.splits if_splits)
  then show ?thesis
    by (simp add: new_User_def castRequiredString_def castString_def)
qed

text \<open>
  Claim C4. Let a first signup succeed, and let a second signup carry the same email up
  to the case of its letters; users are never removed, so the store of the second
  signup holds at least the users the first one left. The second signup is rejected and
  leaves the store as it was: no second user with that email is stored. This holds
  whether or not Mongoose puts the query condition in lower case, since the unique index
  refuses the insert otherwise; when it does and the request passes validation, the
  answer is 400 \<^verbatim>\<open>Email already registered\<close>.
\<close>

theorem signup_same_email_rejected:
  assumes "signup E1 st req1 = (Sent r1, st1)" and "status r1 = 200"
    and "body req1 ''email'' = JStr e1" and "body req2 ''email'' = JStr e2"
    and "toLowerCase e1 = toLowerCase e2"
    and "set (users st1) \<subseteq> set (users st2)"
  shows "snd (signup E2 st2 req2) = st2
         \<and> rejected (fst (signup E2 st2 req2))
         \<and> (runSettersOnQuery E2 \<and> signup_validators E2 req2 = [] \<longrightarrow>
              fst (signup E2 st2 req2) = Sent \<lparr>status = 400, json = ErrorMsg ''Email already registered''\<rparr>)"
proof -
  from signup_success [OF assms(1,2,3)] assms(5,6)
  obtain u where u: "u \<in> set (users st2)" "u_email u = toLowerCase e2"
    by auto
  then have stored: "list_ex (\<lambda>v. u_email v = toLowerCase e2) (users st2)"
    by (auto simp: list_ex_iff)
  have found: "runSettersOnQuery E2 \<Longrightarrow> User_findOne E2 st2 (JStr e2) \<noteq> None"
    using u by (auto simp: User_findOne_def castString_def find_None_iff)
  have save: "\<And>n h. \<exists>err. User_save st2 (new_User E2 n (JStr e2) h) = Inl err"
    using stored by (simp add: User_save_def new_User_def castRequiredString_def castString_def)
  show ?thesis
  proof (cases "signup_validators E2 req2 = []")
    case False
    then show ?thesis
      by (auto simp: signup_def checkValidation_def rejected_def)
  next
    case True
    show ?thesis
    proof (cases "User_findOne E2 st2 (JStr e2)")
      case (Some w)
      then show ?thesis
        using True assms(4) by (simp add: signup_def rejected_def)
    next
      case None
      then have nr: "\<not> runSettersOnQuery E2" using found by auto
      show ?thesis
      proof (cases "body req2 ''password''")
        case (JStr pw)
        from save obtain err where
          "User_save st2 (new_User E2 (body req2 ''name'') (JStr e2) (bcrypt_hash E2 pw)) = Inl err"
          by blast
        then show ?thesis
          using True None assms(4) JStr nr by (simp add: signup_def rejected_def Let_def)
      qed (use True None assms(4) nr in \<open>simp_all add: signup_def rejected_def\<close>)
    qed
  qed
qed

theorem signup_same_email_rejected_witness:
  "fst (signup env0 (snd (signup env0 st0 (signup_req ''a@x.com''))) (signup_req ''A@X.com''))
     = Sent \<lparr>status = 400, json = ErrorMsg ''Email already registered''\<rparr>
   \<and> map u_email (users (snd (signup env0 (snd (signup env0 st0 (signup_req ''a@x.com''))) (signup_req ''A@X.com''))))
     = [''a@x.com'']"
proof -
  let ?st1 = "snd (signup env0 st0 (signup_req ''a@x.com''))"
  have 1: "signup env0 st0 (signup_req ''a@x.com'')
       = (Sent \<lparr>status = 200, json = TokenBody ''0123456789abcdef01234567.hr''\<rparr>, ?st1)"
    by code_simp
  have 2: "body (signup_req ''a@x.com'') ''email'' = JStr ''a@x.com''"
    "body (signup_req ''A@X.com'') ''email'' = JStr ''A@X.com''"
    by (simp_all add: signup_req_def req0_def)
  have 3: "toLowerCase ''a@x.com'' = toLowerCase ''A@X.com''"
    by code_simp
  have 4: "runSettersOnQuery env0 \<and> signup_validators env0 (signup_req ''A@X.com'') = []"
    by code_simp
  have 5: "map u_email (users ?st1) = [''a@x.com'']"
    by code_simp
  show ?thesis
    using signup_same_email_rejected [OF 1 _ 2 3 subset_refl, of env0] 4 5 by simp
qed




section \<open>Scheduling an interview\<close>

text \<open>
  Claim C5, as the code has it. Take an authenticated request to schedule an interview
  that passes validation (the candidate field is an identifier, date and interviewer are
  not empty, the mode, if given, is \<^verbatim>\<open>onsite\<close> or \<^verbatim>\<open>remote\<close>) and whose candidate
  identifier can be cast and belongs to no stored candidate. The response is 404
  \<^verbatim>\<open>Candidate not found\<close> and the store is unchanged. (A request that fails validation
  is answered 400 before the candidate is looked up.)
\<close>

theorem createInterview_unknown_candidate:
  assumes "auth E ''hr'' req = Inr user"
    and "createInterview_validators E req = []"
    and "body req ''candidate'' = JStr c"
    and "castObjectId E c = Some i"
    and "find (\<lambda>d. c_id d = i) (candidates st) = None"
  shows "createInterview E st req
           = (Sent \<lparr>status = 404, json = ErrorMsg ''Candidate not found''\<rparr>, st)"
  using assms
  by (simp add: createInterview_def protected_def createInterview_handler_def
      Candidate_findById_def cast_id_def)

lemma auth_hr_interview:
  "auth env0 ''hr'' (interview_req d) = Inr \<lparr>userId = ''aaaaaaaaaaaaaaaaaaaaaaaa'', role = ''hr''\<rparr>"
  by (simp add: auth_def interview_req_def bearer_def req0_def env0_def)

theorem createInterview_unknown_candidate_witness:
  "createInterview env0 st0 (interview_req (JInt 5000))
     = (Sent \<lparr>status = 404, json = ErrorMsg ''Candidate not found''\<rparr>, st0)"
proof -
  have v: "createInterview_validators env0 (interview_req (JInt 5000)) = []"
    by code_simp
  have b: "body (interview_req (JInt 5000)) ''candidate'' = JStr ''eeeeeeeeeeeeeeeeeeeeeeee''"
    by (simp add: interview_req_def bearer_def req0_def)
  have c: "castObjectId env0 ''eeeeeeeeeeeeeeeeeeeeeeee'' = Some ''eeeeeeeeeeeeeeeeeeeeeeee''"
    by code_simp
  have f: "find (\<lambda>d. c_id d = ''eeeeeeeeeeeeeeeeeeeeeeee'') (candidates st0) = None"
    by (simp add: st0_def)
  show ?thesis
    by (rule createInterview_unknown_candidate [OF auth_hr_interview v b c f])
qed

theorem createInterview_missing_date_counterexample:
  "isMongoId env0 ''eeeeeeeeeeeeeeeeeeeeeeee''
   \<and> Candidate_findById env0 st0 (body (interview_req JUndefined) ''candidate'') = Inr None
   \<and> createInterview env0 st0 (interview_req JUndefined)
       = (Sent \<lparr>status = 400, json = Errors [(''date'', ''Invalid value'')]\<rparr>, st0)"
  by code_simp

lemma createInterview_invalid_request:
  assumes "auth E ''hr'' req = Inr user" and "createInterview_validators E req \<noteq> []"
  shows "createInterview E st req
           = (Sent \<lparr>status = 400, json = Errors (createInterview_validators E req)\<rparr>, st)"
  using assms
  by (simp add: createInterview_def protected_def createInterview_handler_def checkValidation_def)

section \<open>Listing\<close>

lemma auth_hr_list:
  "auth env0 ''hr'' (list_req ps) = Inr \<lparr>userId = ''aaaaaaaaaaaaaaaaaaaaaaaa'', role = ''hr''\<rparr>"
  by (simp add: auth_def list_req_def bearer_def req0_def env0_def)

text \<open>
  Claim C8. For an authenticated list request with \<^verbatim>\<open>limit=all\<close> whose filter the
  database accepts, the response has all the documents the filter selects, sorted, and
  its \<^verbatim>\<open>total\<close> is the length of \<^verbatim>\<open>data\<close>; this holds for candidates and for
  interviews (each with its candidate attached).
\<close>

theorem list_all_returns_every_match:
  assumes "auth E ''hr'' req = Inr user" and "query req ''limit'' = Some ''all''"
  shows "(Candidate_matching E st (candidateFilter req) = Inr cs \<longrightarrow>
            (let data = sort_key (\<lambda>c. - c_createdAt c) cs
             in listCandidates E st req
                  = (Sent \<lparr>status = 200, json = CandidatePage data (length data)\<rparr>, st)
                \<and> set data = set cs \<and> length data = length cs))
         \<and> (Interview_matching E st (interviewFilter req) = Inr ivs \<longrightarrow>
            (let data = map (populate st) (sort_key (\<lambda>iv. - i_date iv) ivs)
             in listInterviews E st req
                  = (Sent \<lparr>status = 200, json = InterviewPage data (length data)\<rparr>, st)
                \<and> set (map fst data) = set ivs \<and> length data = length ivs))"
proof -
  have "fst ` populate st ` S = S" for S
    by (force simp: populate_def)
  then show ?thesis
    using assms
    by (simp add: listCandidates_def listInterviews_def protected_def listCandidates_handler_def
        listInterviews_handler_def Candidate_find_sorted_def Interview_find_sorted_def Let_def)
qed

theorem list_all_returns_every_match_witness:
  "(case fst (listCandidates env0 st12 (list_req [(''limit'', ''all''), (''minExp'', ''3'')])) of
      Sent res \<Rightarrow> (case json res of CandidatePage data n \<Rightarrow> (map c_createdAt data, n) | _ \<Rightarrow> ([], 0))
    | _ \<Rightarrow> ([], 0))
   = ([11, 10, 9, 8, 7, 6, 5, 4, 3], 9)"
proof -
  have l: "query (list_req [(''limit'', ''all''), (''minExp'', ''3'')]) ''limit'' = Some ''all''"
    by (simp add: list_req_def bearer_def req0_def)
  have m: "Candidate_matching env0 st12 (candidateFilter (list_req [(''limit'', ''all''), (''minExp'', ''3'')]))
      = Inr (map cand [3..<12])"
    by code_simp
  have s: "map c_createdAt (sort_key (\<lambda>c. - c_createdAt c) (map cand [3..<12])) = [11, 10, 9, 8, 7, 6, 5, 4, 3]"
    by code_simp
  show ?thesis
    using list_all_returns_every_match [OF auth_hr_list l, of st12 "map cand [3..<12]"] m s
    by (simp add: Let_def)
qed

lemma page_of_truthy: "truthy_num (page_of x)"
  by (simp add: page_of_def Let_def truthy_num_def)

lemma limit_of_nonzero: "limit_of x \<noteq> Fin 0"
  by (auto simp: limit_of_def Let_def Math_min_def truthy_num_def)

lemma as_nat_of_nat [simp]: "as_nat (Fin (of_nat n)) = Some n"
  by (simp add: as_nat_def)

lemma skip_of_nat: "1 \<le> p \<Longrightarrow> skip_of (Fin (of_nat p)) (Fin (of_nat l)) = Fin (of_nat ((p - 1) * l))"
  by (simp add: skip_of_def js_sub_def js_mul_def of_nat_diff)

lemma skip_limit_nat:
  "1 \<le> l \<Longrightarrow> skip_limit (Fin (of_nat s)) (Fin (of_nat l)) xs = Some (take l (drop s xs))"
  by (simp add: skip_limit_def)

lemma as_nat_SomeD: "as_nat x = Some n \<Longrightarrow> x = Fin (of_nat n)"
proof (cases x)
  case (Fin r)
  assume "as_nat x = Some n"
  with Fin have r: "0 \<le> r" "r = of_int \<lfloor>r\<rfloor>" "n = nat \<lfloor>r\<rfloor>"
    by (auto simp: as_nat_def split: if_splits)
  then have "0 \<le> \<lfloor>r\<rfloor>" by simp
  then have "(of_nat (nat \<lfloor>r\<rfloor>) :: rat) = of_int \<lfloor>r\<rfloor>" by simp
  with r Fin show ?thesis by simp
qed (simp_all add: as_nat_def)

lemma skip_limit_SomeD:
  assumes "skip_limit sk lm xs = Some data" and "lm \<noteq> Fin 0"
  shows "\<exists>s l. sk = Fin (of_nat s) \<and> lm = Fin (of_nat l) \<and> 1 \<le> l \<and> data = take l (drop s xs)"
proof -
  from assms(1) obtain s l where a: "as_nat sk = Some s" "as_nat lm = Some l"
    and d: "data = (if l = 0 then drop s xs else take l (drop s xs))"
    by (auto simp: skip_limit_def split: option.splits)
  from a have e: "sk = Fin (of_nat s)" "lm = Fin (of_nat l)"
    by (simp_all add: as_nat_SomeD)
  with assms(2) have "l \<noteq> 0" by auto
  with d e show ?thesis by auto
qed

text \<open>
  Claim C7. \<^verbatim>\<open>page\<close> defaults to 1. Take an authenticated list request with a \<^verbatim>\<open>limit\<close>
  other than \<^verbatim>\<open>all\<close> whose filter the database accepts. Whenever it is answered,
  \<^verbatim>\<open>data\<close> is the sorted list of matching documents without its first \<open>s\<close> elements, cut
  after \<open>l\<close> elements, where \<open>s\<close> is \<open>(page - 1) * limit\<close> and \<open>l\<close> is the limit, and
  \<^verbatim>\<open>total\<close> is the number of all matching documents, whatever page and limit are. It is
  answered whenever the effective page \<open>p\<close> and limit \<open>l\<close> are whole numbers (they are then
  at least 1), with \<open>s = (p - 1) * l\<close>. This holds for candidates and for interviews.
\<close>

theorem list_page_slice_and_total:
  assumes "auth E ''hr'' req = Inr user" and "query req ''limit'' \<noteq> Some ''all''"
    and "Candidate_matching E st (candidateFilter req) = Inr cs"
    and "Interview_matching E st (interviewFilter req) = Inr ivs"
  shows "page_of None = Fin 1
         \<and> (listCandidates E st req = (Sent res, st') \<longrightarrow>
              (\<exists>s l. skip_of (page_of (query req ''page'')) (limit_of (query req ''limit'')) = Fin (of_nat s)
                 \<and> limit_of (query req ''limit'') = Fin (of_nat l) \<and> 1 \<le> l
                 \<and> res = \<lparr>status = 200,
                           json = CandidatePage
                                    (take l (drop s (sort_key (\<lambda>c. - c_createdAt c) cs)))
                                    (length cs)\<rparr>
                 \<and> st' = st))
         \<and> (listInterviews E st req = (Sent res, st') \<longrightarrow>
              (\<exists>s l. skip_of (page_of (query req ''page'')) (limit_of (query req ''limit'')) = Fin (of_nat s)
                 \<and> limit_of (query req ''limit'') = Fin (of_nat l) \<and> 1 \<le> l
                 \<and> res = \<lparr>status = 200,
                           json = InterviewPage
                                    (take l (drop s (map (populate st) (sort_key (\<lambda>iv. - i_date iv) ivs))))
                                    (length ivs)\<rparr>
                 \<and> st' = st))
         \<and> (page_of (query req ''page'') = Fin (of_nat p) \<and> limit_of (query req ''limit'') = Fin (of_nat l) \<longrightarrow>
              1 \<le> p \<and> 1 \<le> l
              \<and> listCandidates E st req
                  = (Sent \<lparr>status = 200,
                            json = CandidatePage
                                     (take l (drop ((p - 1) * l) (sort_key (\<lambda>c. - c_createdAt c) cs)))
                                     (length cs)\<rparr>, st)
              \<and> listInterviews E st req
                  = (Sent \<lparr>status = 200,
                            json = InterviewPage
                                     (take l (drop ((p - 1) * l)
                                        (map (populate st) (sort_key (\<lambda>iv. - i_date iv) ivs))))
                                     (length ivs)\<rparr>, st))"
proof -
  let ?sk = "skip_of (page_of (query req ''page'')) (limit_of (query req ''limit''))"
  let ?lim = "limit_of (query req ''limit'')"
  have d: "page_of None = Fin 1"
    by (simp add: page_of_def truthy_num_def)
  have lc: "listCandidates E st req =
      (case skip_limit ?sk ?lim (sort_key (\<lambda>c. - c_createdAt c) cs) of
         None \<Rightarrow> (Outside, st)
       | Some data \<Rightarrow> (Sent \<lparr>status = 200, json = CandidatePage data (length cs)\<rparr>, st))"
    using assms
    by (simp add: listCandidates_def protected_def listCandidates_handler_def
        Candidate_find_sorted_def Candidate_countDocuments_def Let_def split: option.splits)
  have li: "listInterviews E st req =
      (case skip_limit ?sk ?lim (map (populate st) (sort_key (\<lambda>iv. - i_date iv) ivs)) of
         None \<Rightarrow> (Outside, st)
       | Some data \<Rightarrow> (Sent \<lparr>status = 200, json = InterviewPage data (length ivs)\<rparr>, st))"
    using assms
    by (simp add: listInterviews_def protected_def listInterviews_handler_def
        Interview_find_sorted_def Interview_countDocuments_def Let_def split: option.splits)
  have sent_c: "\<exists>s l. ?sk = Fin (of_nat s) \<and> ?lim = Fin (of_nat l) \<and> 1 \<le> l
       \<and> res = \<lparr>status = 200, json = CandidatePage (take l (drop s (sort_key (\<lambda>c. - c_createdAt c) cs))) (length cs)\<rparr>
       \<and> st' = st"
    if "listCandidates E st req = (Sent res, st')"
  proof -
    from that lc obtain data where
      sl: "skip_limit ?sk ?lim (sort_key (\<lambda>c. - c_createdAt c) cs) = Some data"
      and r: "res = \<lparr>status = 200, json = CandidatePage data (length cs)\<rparr>" "st' = st"
      by (auto split: option.splits)
    from skip_limit_SomeD [OF sl limit_of_nonzero] r show ?thesis by auto
  qed
  have sent_i: "\<exists>s l. ?sk = Fin (of_nat s) \<and> ?lim = Fin (of_nat l) \<and> 1 \<le> l
       \<and> res = \<lparr>status = 200, json = InterviewPage (take l (drop s (map (populate st) (sort_key (\<lambda>iv. - i_date iv) ivs)))) (length ivs)\<rparr>
       \<and> st' = st"
    if "listInterviews E st req = (Sent res, st')"
  proof -
    from that li obtain data where
      sl: "skip_limit ?sk ?lim (map (populate st) (sort_key (\<lambda>iv. - i_date iv) ivs)) = Some data"
      and r: "res = \<lparr>status = 200, json = InterviewPage data (length ivs)\<rparr>" "st' = st"
      by (auto split: option.splits)
    from skip_limit_SomeD [OF sl limit_of_nonzero] r show ?thesis by auto
  qed
  have whole: "1 \<le> p \<and> 1 \<le> l
      \<and> listCandidates E st req
          = (Sent \<lparr>status = 200,
                    json = CandidatePage (take l (drop ((p - 1) * l) (sort_key (\<lambda>c. - c_createdAt c) cs)))
                             (length cs)\<rparr>, st)
      \<and> listInterviews E st req
          = (Sent \<lparr>status = 200,
                    json = InterviewPage
                             (take l (drop ((p - 1) * l) (map (populate st) (sort_key (\<lambda>iv. - i_date iv) ivs))))
                             (length ivs)\<rparr>, st)"
    if pg: "page_of (query req ''page'') = Fin (of_nat p)" and lm: "limit_of (query req ''limit'') = Fin (of_nat l)"
  proof -
    have p: "1 \<le> p"
      using page_of_truthy [of "query req ''page''"] pg
      by (cases p) (simp_all add: truthy_num_def)
    have l: "1 \<le> l"
      using limit_of_nonzero [of "query req ''limit''"] lm
      by (cases l) simp_all
    have s: "skip_limit ?sk ?lim xs = Some (take l (drop ((p - 1) * l) xs))" for xs :: "'a list"
      unfolding pg lm skip_of_nat [OF p] by (rule skip_limit_nat [OF l])
    show ?thesis
      using p l by (simp add: lc li s)
  qed
  from d sent_c sent_i whole show ?thesis
    by blast
qed

theorem list_page_slice_and_total_witness:
  "(case fst (listCandidates env0 st12 (list_req [(''page'', ''2''), (''limit'', ''10'')])) of
      Sent res \<Rightarrow> (case json res of CandidatePage data n \<Rightarrow> (map c_createdAt data, n) | _ \<Rightarrow> ([], 0))
    | _ \<Rightarrow> ([], 0))
   = ([1, 0], 12)"
proof -
  let ?req = "list_req [(''page'', ''2''), (''limit'', ''10'')]"
  have q: "query ?req ''limit'' \<noteq> Some ''all''"
    by (simp add: list_req_def bearer_def req0_def)
  have pg: "page_of (query ?req ''page'') = Fin (of_nat 2)"
    by code_simp
  have lm: "limit_of (query ?req ''limit'') = Fin (of_nat 10)"
    by code_simp
  have m: "Candidate_matching env0 st12 (candidateFilter ?req) = Inr (map cand [0..<12])"
    by code_simp
  have i: "Interview_matching env0 st12 (interviewFilter ?req) = Inr []"
    by code_simp
  have s: "map c_createdAt (take 10 (drop ((2 - 1) * 10) (sort_key (\<lambda>c. - c_createdAt c) (map cand [0..<12])))) = [1, 0]"
    by code_simp
  note page = list_page_slice_and_total [OF auth_hr_list q m i, where p = 2 and l = 10,
      THEN conjunct2, THEN conjunct2, THEN conjunct2]
  show ?thesis
    using page pg lm s by simp
qed

section \<open>The experience filter\<close>

lemma createCandidate_experience_nonneg:
  "experience_nonneg st \<Longrightarrow> experience_nonneg (snd (createCandidate E st req))"
  by (auto simp: createCandidate_def protected_def createCandidate_handler_def Candidate_save_def
      Candidate_validate_def experience_nonneg_def Let_def split: sum.splits option.splits if_splits)

lemma listCandidates_cong:
  assumes "Candidate_matching E st (candidateFilter req) = Candidate_matching E st (candidateFilter req')"
    and "authorization req = authorization req'"
    and "query req ''page'' = query req' ''page''" and "query req ''limit'' = query req' ''limit''"
  shows "listCandidates E st req = listCandidates E st req'"
  unfolding listCandidates_def protected_def auth_def listCandidates_handler_def
    Candidate_find_sorted_def Candidate_countDocuments_def Let_def assms
  by (rule refl)

lemma Candidate_matching_gte_zero:
  assumes "experience_nonneg st"
  shows "Candidate_matching E st (f\<lparr>f_experience := Some (Fin 0)\<rparr>)
           = Candidate_matching E st (f\<lparr>f_experience := None\<rparr>)"
proof -
  have "filter (\<lambda>c. P c \<and> Q c \<and> js_le (Fin 0) (c_experience c)) (candidates st)
          = filter (\<lambda>c. P c \<and> Q c \<and> True) (candidates st)" for P Q
    using assms by (intro filter_cong) (auto simp: experience_nonneg_def list_all_iff)
  then show ?thesis
    by (simp add: Candidate_matching_def split: option.splits)
qed

text \<open>
  Claim C10, as the code has it. An empty \<^verbatim>\<open>minExp\<close> installs no experience filter, and
  the response is the one of the same request without \<^verbatim>\<open>minExp\<close>. The parameter
  \<^verbatim>\<open>minExp=0\<close> arrives as the string \<^verbatim>\<open>"0"\<close>, which is truthy: it installs the filter
  \<^verbatim>\<open>experience: { $gte: 0 }\<close>, where the request without \<^verbatim>\<open>minExp\<close> has none. The
  response is still the same whenever every stored candidate has an experience of at
  least \<open>0\<close>, which the schema demands of every candidate that is saved.
\<close>

theorem minExp_zero_filter:
  "(query req ''minExp'' = Some [] \<longrightarrow>
      f_experience (candidateFilter req) = None
      \<and> listCandidates E st req = listCandidates E st (without_minExp req))
   \<and> (query req ''minExp'' = Some ''0'' \<longrightarrow>
      f_experience (candidateFilter req) = Some (Fin 0)
      \<and> f_experience (candidateFilter (without_minExp req)) = None
      \<and> (experience_nonneg st \<longrightarrow>
           listCandidates E st req = listCandidates E st (without_minExp req)))"
proof (intro conjI impI)
  assume e: "query req ''minExp'' = Some []"
  then show "f_experience (candidateFilter req) = None"
    by (simp add: candidateFilter_def Let_def)
  have "candidateFilter req = candidateFilter (without_minExp req)"
    using e by (simp add: candidateFilter_def without_minExp_def Let_def)
  then show "listCandidates E st req = listCandidates E st (without_minExp req)"
    by (intro listCandidates_cong) (simp_all add: without_minExp_def)
next
  assume z: "query req ''minExp'' = Some ''0''"
  have n: "Number_str ''0'' = Fin 0"
    by code_simp
  show a: "f_experience (candidateFilter req) = Some (Fin 0)"
    using z n by (simp add: candidateFilter_def Let_def)
  show b: "f_experience (candidateFilter (without_minExp req)) = None"
    by (simp add: candidateFilter_def without_minExp_def Let_def)
  assume inv: "experience_nonneg st"
  have f: "candidateFilter req = (candidateFilter (without_minExp req))\<lparr>f_experience := Some (Fin 0)\<rparr>"
    using z n by (simp add: candidateFilter_def without_minExp_def Let_def)
  have g: "candidateFilter (without_minExp req) = (candidateFilter (without_minExp req))\<lparr>f_experience := None\<rparr>"
    by (simp add: candidateFilter_def without_minExp_def Let_def)
  have m: "Candidate_matching E st (candidateFilter req)
             = Candidate_matching E st (candidateFilter (without_minExp req))"
    using Candidate_matching_gte_zero [OF inv, of E "candidateFilter (without_minExp req)"] f g
    by simp
  show "listCandidates E st req = listCandidates E st (without_minExp req)"
    by (rule listCandidates_cong [OF m]) (simp_all add: without_minExp_def)
qed

theorem minExp_zero_filter_witness:
  "f_experience (candidateFilter (list_req [(''minExp'', [])])) = None
   \<and> listCandidates env0 st12 (list_req [(''minExp'', [])])
     = listCandidates env0 st12 (without_minExp (list_req [(''minExp'', [])]))
   \<and> listCandidates env0 st12 (list_req [(''minExp'', ''0'')])
     = listCandidates env0 st12 (without_minExp (list_req [(''minExp'', ''0'')]))"
proof -
  have a: "query (list_req [(''minExp'', [])]) ''minExp'' = Some []"
    "query (list_req [(''minExp'', ''0'')]) ''minExp'' = Some ''0''"
    by (simp_all add: list_req_def bearer_def req0_def)
  have i: "experience_nonneg st12"
    by code_simp
  show ?thesis
    using a i minExp_zero_filter [of "list_req [(''minExp'', [])]" env0 st12]
      minExp_zero_filter [of "list_req [(''minExp'', ''0'')]" env0 st12]
    by simp
qed

theorem minExp_zero_installs_filter_counterexample:
  "candidateFilter (list_req [(''minExp'', ''0'')])
     = \<lparr>f_name = None, f_role = None, f_experience = Some (Fin 0)\<rparr>
   \<and> candidateFilter (without_minExp (list_req [(''minExp'', ''0'')]))
     = \<lparr>f_name = None, f_role = None, f_experience = None\<rparr>"
  by code_simp

end
